theory Spec2Isabelle
  imports Complex_Main "HOL-Library.AList" "HOL-Library.Sublist"
begin

section \<open>Python values shared by all modules\<close>

text \<open>
  Every exception the modelled code can raise is a value of \<open>py_error\<close>; a function that
  can raise returns \<open>py_error + 'a\<close> with \<open>Inl\<close> for the exception. Python floats are
  modelled by \<open>real\<close>: only the structure of the computations is used below, never the
  rounding of a float operation.
\<close>

datatype py_error =
    ValueError string
  | NotImplementedError string
  | IndexError string
  | UnboundLocalError string
  | ZeroDivisionError
  | AssertionError
  | TypeError
  | AttributeError
  | RuntimeError
  | FileNotFoundError

text \<open>
  Destructuring assignment \<open>a, b, c = xs\<close>: it raises \<open>ValueError\<close> unless \<open>xs\<close> has
  exactly the number of elements named on the left.
\<close>

definition unpack :: "nat \<Rightarrow> 'a list \<Rightarrow> py_error + 'a list" where
  "unpack n xs =
     (if length xs < n then Inl (ValueError ''not enough values to unpack'')
      else if n < length xs then Inl (ValueError ''too many values to unpack'')
      else Inr xs)"

text \<open>Python's \<open>xs[a:b]\<close> and \<open>xs[i]\<close> on a sequence, negative indices counting from the end.\<close>

definition slice_bound :: "int \<Rightarrow> int \<Rightarrow> int" where
  "slice_bound i n = (if i < 0 then max (i + n) 0 else min i n)"

definition py_slice :: "'a list \<Rightarrow> int \<Rightarrow> int \<Rightarrow> 'a list" where
  "py_slice xs a b =
     (let n = int (length xs); a' = slice_bound a n; b' = slice_bound b n
      in take (nat (b' - a')) (drop (nat a') xs))"

definition py_index :: "'a list \<Rightarrow> int \<Rightarrow> py_error + 'a" where
  "py_index xs i =
     (let n = int (length xs); j = (if i < 0 then i + n else i)
      in if 0 \<le> j \<and> j < n then Inr (xs ! nat j) else Inl (IndexError ''index out of range''))"

text \<open>
  \<open>os.path.join\<close> on a POSIX system, for two components: an absolute second component
  replaces the first, otherwise the two are joined by exactly one separator.
\<close>

definition os_path_join :: "string \<Rightarrow> string \<Rightarrow> string" where
  "os_path_join a b =
     (if b \<noteq> [] \<and> hd b = CHR ''/'' then b
      else if a = [] \<or> last a = CHR ''/'' then a @ b
      else a @ ''/'' @ b)"


section \<open>mesh\_nerf.py: the geometry cache of the mesh tool\<close>

text \<open>
  The part of \<open>main\<close> between "Generating mesh geometry" and "Generating mesh texture".
  The file system is a map from a path to the file stored there; directories are not
  modelled. \<open>'g\<close> is the geometry triple (vertices, triangles, normals).
\<close>

datatype 'g stored = NpyCache 'g | ObjMesh 'g

record mesh_args =
  cache_mesh :: bool
  save_dir :: string
  super_sampling :: int

definition cache_save_path :: "string \<Rightarrow> string" where
  "cache_save_path dir = os_path_join dir (dir @ ''mesh_cache.npy'')"

definition cache_load_path :: "string \<Rightarrow> string" where
  "cache_load_path dir = os_path_join dir ''mesh_cache.npy''"

text \<open>
  \<open>geometry_stage args extracted fs\<close>: \<open>extracted\<close> is what iso-surface extraction returns
  on this run. The result is the new file system and the geometry handed to the texture
  stage; \<open>None\<close> is the early \<open>return\<close> of the super-sampling branch.
\<close>

definition geometry_stage ::
  "mesh_args \<Rightarrow> 'g \<Rightarrow> (string \<rightharpoonup> 'g stored) \<Rightarrow> py_error + ((string \<rightharpoonup> 'g stored) \<times> 'g option)" where
  "geometry_stage args extracted fs =
     (if cache_mesh args then
        (if super_sampling args \<ge> 1
         then Inr (fs(os_path_join (save_dir args) ''mesh.obj'' \<mapsto> ObjMesh extracted), None)
         else Inr (fs(cache_save_path (save_dir args) \<mapsto> NpyCache extracted), Some extracted))
      else
        (case fs (cache_load_path (save_dir args)) of
           None \<Rightarrow> Inl FileNotFoundError
         | Some (NpyCache g) \<Rightarrow> Inr (fs, Some g)
         | Some (ObjMesh g) \<Rightarrow> Inl (ValueError ''not a numpy file'')))"

section \<open>data/datasets.py: ray generation\<close>

type_synonym vec3 = "real \<times> real \<times> real"

text \<open>A camera-to-world pose: the three rows of the rotation \<open>pose[:3, :3]\<close> and the
  translation column \<open>pose[:3, -1]\<close>.\<close>

record pose =
  rot0 :: vec3
  rot1 :: vec3
  rot2 :: vec3
  trans :: vec3

text \<open>
  Modelled from the spec: \<open>meshgrid_xy\<close> of the \<open>nerf\<close> package, whose source is not part
  of the files at hand. For sequences of length \<open>W\<close> and \<open>H\<close> it returns two grids of
  shape \<open>(H, W)\<close>, the first varying along the width axis and the second along the height
  axis.
\<close>

definition meshgrid_xy :: "'a list \<Rightarrow> 'b list \<Rightarrow> 'a list list \<times> 'b list list" where
  "meshgrid_xy xs ys = (map (\<lambda>y. xs) ys, map (\<lambda>y. map (\<lambda>x. y) xs) ys)"

definition arange :: "nat \<Rightarrow> real list" where
  "arange n = map real [0..<n]"

definition dummy_rays_simple_radial ::
  "nat \<Rightarrow> nat \<Rightarrow> real list \<Rightarrow> real \<Rightarrow> py_error + vec3 list list" where
  "dummy_rays_simple_radial height width camera resolution =
     (if length camera < 3 then Inl (IndexError ''index out of range'')
      else
        let f = camera ! 0 * resolution;
            cx = camera ! 1 * resolution;
            cy = camera ! 2 * resolution;
            (ii, jj) = meshgrid_xy (arange width) (arange height)
        in Inr (map2 (\<lambda>irow jrow. map2 (\<lambda>i j. ((i - cx) / f, (j - cy) / f, 1)) irow jrow) ii jj))"

definition dot3 :: "vec3 \<Rightarrow> vec3 \<Rightarrow> real" where
  "dot3 a b = (case a of (a0, a1, a2) \<Rightarrow> case b of (b0, b1, b2) \<Rightarrow> a0 * b0 + a1 * b1 + a2 * b2)"

text \<open>The loop body of \<open>get_rays\<close>: the directions rotated by the pose, the origins the
  pose's translation at every pixel.\<close>

definition rotate_rays :: "vec3 list list \<Rightarrow> pose \<Rightarrow> vec3 list list" where
  "rotate_rays dummies p =
     map (map (\<lambda>d. (dot3 d (rot0 p), dot3 d (rot1 p), dot3 d (rot2 p)))) dummies"

definition expand_origin :: "vec3 list list \<Rightarrow> pose \<Rightarrow> vec3 list list" where
  "expand_origin dummies p = map (map (\<lambda>d. trans p)) dummies"

text \<open>\<open>torch.stack\<close> of an empty list raises; otherwise the list of grids is the stacked
  tensor.\<close>

definition stack :: "'a list \<Rightarrow> py_error + 'a list" where
  "stack xs = (if xs = [] then Inl RuntimeError else Inr xs)"

definition get_rays ::
  "nat \<Rightarrow> nat \<Rightarrow> real list \<Rightarrow> pose list \<Rightarrow> string \<Rightarrow> real
     \<Rightarrow> py_error + (vec3 list list list \<times> vec3 list list list)" where
  "get_rays H W camera poses camera_model resolution =
     (case (if camera_model = ''SIMPLE_RADIAL''
            then dummy_rays_simple_radial H W camera resolution
            else Inl (NotImplementedError (''Camera model '' @ camera_model @ '' not implemented!''))) of
        Inl e \<Rightarrow> Inl e
      | Inr dummies \<Rightarrow>
          (case stack (map (expand_origin dummies) poses) of
             Inl e \<Rightarrow> Inl e
           | Inr all_ray_origins \<Rightarrow>
               (case stack (map (rotate_rays dummies) poses) of
                  Inl e \<Rightarrow> Inl e
                | Inr all_ray_directions \<Rightarrow> Inr (all_ray_directions, all_ray_origins))))"


section \<open>data/datasets.py: CachingDataset\<close>

datatype DatasetType = TRAIN | TEST | VALIDATION

fun type_value :: "DatasetType \<Rightarrow> string" where
  "type_value TRAIN = ''train''"
| "type_value TEST = ''test''"
| "type_value VALIDATION = ''val''"

text \<open>The \<open>type\<close> argument is any Python value: a member of the enumeration, or something
  else (a plain string, say), which the constructor's \<open>assert\<close> rejects.\<close>

datatype type_arg = Member DatasetType | Other string

record caching_cfg =
  use_caching :: bool
  override_caching :: bool
  cache_dir :: string

text \<open>What the constructor does to the outside world, in order.\<close>

datatype event =
    Print string
  | MakeDirs string
  | CacheDataset
  | LoadDataset
  | Glob string
  | InitSampling string

text \<open>
  The file system is the list of paths that exist. \<open>os.makedirs(p, exist_ok = True)\<close>
  creates \<open>p\<close> and every missing ancestor directory of it.
\<close>

definition ancestors :: "string \<Rightarrow> string list" where
  "ancestors p = map (\<lambda>n. take n p) (filter (\<lambda>n. n = length p \<or> p ! n = CHR ''/'') [1..<Suc (length p)])"

definition makedirs :: "string \<Rightarrow> string list \<Rightarrow> string list" where
  "makedirs p fs = fs @ filter (\<lambda>q. q \<notin> set fs) (ancestors p)"

text \<open>\<open>glob.glob(os.path.join(dir, "*.data"))\<close>: the files directly inside \<open>dir\<close> whose
  name ends in \<open>.data\<close> and does not start with a dot.\<close>

definition glob_data :: "string \<Rightarrow> string list \<Rightarrow> string list" where
  "glob_data dir fs =
     filter (\<lambda>p. prefix (dir @ ''/'') p \<and>
                 (let name = drop (length dir + 1) p
                  in CHR ''/'' \<notin> set name \<and> suffix ''.data'' name \<and> hd name \<noteq> CHR ''.'')) fs"

text \<open>
  \<open>caching_init cfg ty cache_dataset load_dataset fs\<close> is \<open>CachingDataset.__init__\<close>. The
  two abstract methods of the subclass are parameters: \<open>cache_dataset\<close> maps the file
  system it finds to the one it leaves, or raises; \<open>load_dataset\<close> returns or raises. The
  result records the trace of events up to the return or the exception, the file system
  at that point (what a failing \<open>cache_dataset\<close> leaves behind is not modelled: the
  file system is then the one it was called on) and the exception raised, if any.
\<close>

record init_result =
  trace :: "event list"
  files :: "string list"
  raised :: "py_error option"

text \<open>\<open>self.path\<close>, and the file system once the constructor has made sure that the
  cache directory exists.\<close>

definition cache_path :: "caching_cfg \<Rightarrow> DatasetType \<Rightarrow> string" where
  "cache_path cfg t = os_path_join (cache_dir cfg) (type_value t)"

definition ensure_cache_dir :: "caching_cfg \<Rightarrow> DatasetType \<Rightarrow> string list \<Rightarrow> string list" where
  "ensure_cache_dir cfg t fs =
     (if cache_dir cfg \<in> set fs then fs else makedirs (cache_path cfg t) fs)"

text \<open>The end of the caching branch: list the cached files and read the first one.\<close>

definition init_from_cache :: "event list \<Rightarrow> string \<Rightarrow> string list \<Rightarrow> init_result" where
  "init_from_cache ev path fs =
     (case glob_data path fs of
        [] \<Rightarrow> \<lparr>trace = ev @ [Glob path], files = fs,
               raised = Some (IndexError ''list index out of range'')\<rparr>
      | first # rest \<Rightarrow>
          \<lparr>trace = ev @ [Glob path, InitSampling first, Print ''Using cached dataset...''],
           files = fs, raised = None\<rparr>)"

definition caching_init ::
  "caching_cfg \<Rightarrow> type_arg \<Rightarrow> (string list \<Rightarrow> py_error + string list) \<Rightarrow> py_error option
     \<Rightarrow> string list \<Rightarrow> init_result" where
  "caching_init cfg ty cache_dataset load_dataset fs =
     (case ty of
        Other v \<Rightarrow> \<lparr>trace = [], files = fs, raised = Some AssertionError\<rparr>
      | Member t \<Rightarrow>
          if use_caching cfg then
            let cache_dir_exists = (cache_dir cfg \<in> set fs);
                ev1 = (if \<not> cache_dir_exists
                       then [Print ''The path does not exist, creating one...'',
                             MakeDirs (cache_path cfg t)]
                       else []);
                fs1 = ensure_cache_dir cfg t fs;
                message = (if override_caching cfg \<and> cache_dir_exists then ''overriding'' else ''creating'');
                ev2 = ev1 @ [Print (''Caching the dataset by '' @ message @ ''...'')]
            in if override_caching cfg \<or> \<not> cache_dir_exists
               then (case cache_dataset fs1 of
                       Inl e \<Rightarrow> \<lparr>trace = ev2 @ [CacheDataset], files = fs1, raised = Some e\<rparr>
                     | Inr fs2 \<Rightarrow> init_from_cache (ev2 @ [CacheDataset]) (cache_path cfg t) fs2)
               else init_from_cache ev2 (cache_path cfg t) fs1
          else
            (case load_dataset of
               Some e \<Rightarrow> \<lparr>trace = [LoadDataset], files = fs, raised = Some e\<rparr>
             | None \<Rightarrow>
                 \<lparr>trace = [LoadDataset, Print ''Load whole dataset into the memory...''],
                  files = fs, raised = None\<rparr>))"

definition cache_dataset_invoked :: "init_result \<Rightarrow> bool" where
  "cache_dataset_invoked r = (CacheDataset \<in> set (trace r))"


section \<open>data/datasets.py: ColmapDataset and LLFFColmapDataset\<close>

text \<open>
  The fields the two classes index. Each tensor is the list of its slices along the first
  axis, so \<open>shape[0]\<close> is the length of the list; \<open>'r\<close> is the type of one slice. In
  pooled mode \<open>ray_targets\<close> holds one entry per ray.
\<close>

record 'r ray_pool =
  num_random_rays :: int
  ray_targets :: "'r list"
  all_ray_origins :: "'r list"
  all_ray_directions :: "'r list"
  ray_bounds :: "'r list"

text \<open>\<open>int(a / b)\<close> for integers: true division raises on a zero divisor, \<open>int\<close> truncates
  towards zero.\<close>

definition int_truediv :: "int \<Rightarrow> int \<Rightarrow> py_error + int" where
  "int_truediv a b =
     (if b = 0 then Inl ZeroDivisionError
      else Inr (sgn a * sgn b * (\<bar>a\<bar> div \<bar>b\<bar>)))"

definition pool_len :: "'r ray_pool \<Rightarrow> py_error + int" where
  "pool_len ds =
     (if num_random_rays ds \<ge> 0
      then int_truediv (int (length (ray_targets ds))) (num_random_rays ds)
      else Inr (int (length (ray_targets ds))))"

definition pool_indices :: "'r ray_pool \<Rightarrow> int \<Rightarrow> int \<times> int" where
  "pool_indices ds idx =
     (if num_random_rays ds \<ge> 0
      then (let start = idx * num_random_rays ds in (start, start + num_random_rays ds))
      else (idx, idx + 1))"

text \<open>\<open>ColmapDataset.__getitem__\<close>: the bounds are returned whole.\<close>

definition colmap_getitem ::
  "'r ray_pool \<Rightarrow> int \<Rightarrow> py_error + ('r list \<times> 'r list \<times> 'r list \<times> 'r list)" where
  "colmap_getitem ds idx =
     (case pool_len ds of
        Inl e \<Rightarrow> Inl e
      | Inr n \<Rightarrow>
          if idx \<ge> n then Inl (IndexError ''Not a valid batch number!'')
          else (case pool_indices ds idx of (a, b) \<Rightarrow>
                  Inr (py_slice (all_ray_origins ds) a b,
                       py_slice (all_ray_directions ds) a b,
                       ray_bounds ds,
                       py_slice (ray_targets ds) a b)))"

text \<open>\<open>LLFFColmapDataset.__getitem__\<close>: the bounds are sliced like the rays.\<close>

definition llff_getitem ::
  "'r ray_pool \<Rightarrow> int \<Rightarrow> py_error + ('r list \<times> 'r list \<times> 'r list \<times> 'r list)" where
  "llff_getitem ds idx =
     (case pool_len ds of
        Inl e \<Rightarrow> Inl e
      | Inr n \<Rightarrow>
          if idx \<ge> n then Inl (IndexError ''Not a valid batch number!'')
          else (case pool_indices ds idx of (a, b) \<Rightarrow>
                  Inr (py_slice (all_ray_origins ds) a b,
                       py_slice (all_ray_directions ds) a b,
                       py_slice (ray_bounds ds) a b,
                       py_slice (ray_targets ds) a b)))"


section \<open>data/datasets.py: ScanNetDataset\<close>

text \<open>
  The fields of the constructor that decide which frame an index reads. An optional
  argument is \<open>None\<close> or an integer; Python's truth test accepts an integer that is not zero.
\<close>

record 'f scannet =
  frames :: "'f list"
  skip :: "int option"
  skip_every :: "int option"
  stop :: int
  data_len :: int

definition truthy :: "int option \<Rightarrow> bool" where
  "truthy x = (case x of None \<Rightarrow> False | Some n \<Rightarrow> n \<noteq> 0)"

definition py_ceil_div :: "int \<Rightarrow> int \<Rightarrow> int" where
  "py_ceil_div a b = \<lceil>real_of_int a / real_of_int b\<rceil>"

text \<open>\<open>ScanNetDataset.__init__\<close>: the assignment \<open>skip_every = None\<close> in the \<open>skip\<close> branch
  changes the local variable only; the attribute was stored before.\<close>

definition scannet_init :: "'f list \<Rightarrow> int \<Rightarrow> int option \<Rightarrow> int option \<Rightarrow> 'f scannet" where
  "scannet_init fr stop_arg skip_arg skip_every_arg =
     (let stop' = (if stop_arg = - 1 then int (length fr) else stop_arg);
          len = (if truthy skip_arg then py_ceil_div stop' (the skip_arg)
                 else if truthy skip_every_arg then stop' - py_ceil_div stop' (the skip_every_arg)
                 else int (length fr))
      in \<lparr>frames = fr, skip = skip_arg, skip_every = skip_every_arg, stop = stop', data_len = len\<rparr>)"

definition scannet_len :: "'f scannet \<Rightarrow> int" where
  "scannet_len ds = data_len ds"

text \<open>The index that \<open>__getitem__\<close> passes to \<open>self.data.frames[item]\<close>.\<close>

definition scannet_item :: "'f scannet \<Rightarrow> int \<Rightarrow> int" where
  "scannet_item ds item =
     (let item1 = (if truthy (skip ds) then item * the (skip ds) else item);
          item2 = (if truthy (skip_every ds)
                   then item1 + ((item1 div the (skip_every ds) - 1) + 1)
                   else item1)
      in item2)"

definition scannet_getitem_frame :: "'f scannet \<Rightarrow> int \<Rightarrow> py_error + 'f" where
  "scannet_getitem_frame ds item = py_index (frames ds) (scannet_item ds item)"


section \<open>model\_nerf.py: flatten\_dict and nest\_dict\<close>

text \<open>
  A configuration value is a leaf (any value that is not a mapping) or a mapping from
  string keys to configuration values. A Python \<open>dict\<close> is an association list in
  insertion order; \<open>AList.update\<close> is \<open>d[k] = v\<close>: an existing key keeps its place and
  takes the new value, a new key goes to the end.
\<close>

datatype 'v cfg = Leaf 'v | Node "(string \<times> 'v cfg) list"

text \<open>\<open>dict(items)\<close>: the items are inserted from left to right.\<close>

definition dict_of :: "('k \<times> 'a) list \<Rightarrow> ('k \<times> 'a) list" where
  "dict_of items = foldl (\<lambda>d (k, v). AList.update k v d) [] items"

definition new_key :: "string \<Rightarrow> string \<Rightarrow> string \<Rightarrow> string" where
  "new_key parent_key sep k = (if parent_key \<noteq> [] then parent_key @ sep @ k else k)"

text \<open>
  \<open>flatten_items d parent_key sep\<close> is the list \<open>items\<close> at the end of the loop of
  \<open>flatten_dict\<close>; the recursive call contributes the items of the dictionary it returns.
\<close>

fun flatten_items :: "(string \<times> 'v cfg) list \<Rightarrow> string \<Rightarrow> string \<Rightarrow> (string \<times> 'v cfg) list" where
  "flatten_items [] parent_key sep = []"
| "flatten_items ((k, Node d) # rest) parent_key sep =
     dict_of (flatten_items d (new_key parent_key sep k) sep) @ flatten_items rest parent_key sep"
| "flatten_items ((k, Leaf x) # rest) parent_key sep =
     (new_key parent_key sep k, Leaf x) # flatten_items rest parent_key sep"

definition flatten_dict :: "(string \<times> 'v cfg) list \<Rightarrow> string \<Rightarrow> string \<Rightarrow> (string \<times> 'v cfg) list" where
  "flatten_dict d parent_key sep = dict_of (flatten_items d parent_key sep)"

text \<open>
  \<open>k.split(sep, 1)\<close> for a non-empty separator: the text before the first occurrence of
  \<open>sep\<close>, and the text after it when there is an occurrence.
\<close>

fun split1 :: "string \<Rightarrow> string \<Rightarrow> string \<times> string option" where
  "split1 sep [] = ([], None)"
| "split1 sep (c # cs) =
     (if prefix sep (c # cs) then ([], Some (drop (length sep) (c # cs)))
      else (case split1 sep cs of (h, r) \<Rightarrow> (c # h, r)))"

lemma split1_shorter: "sep \<noteq> [] \<Longrightarrow> split1 sep k = (h, Some r) \<Longrightarrow> length r < length k"
proof (induction k arbitrary: h)
  case Nil
  then show ?case by simp
next
  case (Cons c cs)
  show ?case
  proof (cases "prefix sep (c # cs)")
    case True
    with Cons.prems show ?thesis by auto
  next
    case False
    with Cons.prems obtain h' where "split1 sep cs = (h', Some r)"
      by (auto split: prod.splits)
    with Cons.IH [OF Cons.prems(1)] show ?thesis by fastforce
  qed
qed

text \<open>
  \<open>_nest_dict_rec(k, v, out, sep)\<close> mutates \<open>out\<close>; the model returns the new value of
  \<open>out\<close>. \<open>out.setdefault(k, {})\<close> is the value already stored under \<open>k\<close>, or a new empty
  dictionary stored under \<open>k\<close>. A leaf has neither \<open>setdefault\<close> nor item assignment.
  \<open>str.split\<close> raises on an empty separator.
\<close>

function nest_dict_rec :: "string \<Rightarrow> 'v cfg \<Rightarrow> 'v cfg \<Rightarrow> string \<Rightarrow> py_error + 'v cfg" where
  "nest_dict_rec k v out sep =
     (if sep = [] then Inl (ValueError ''empty separator'')
      else
        (case snd (split1 sep k) of
           Some rest \<Rightarrow>
             (case out of
                Leaf x \<Rightarrow> Inl AttributeError
              | Node kvs \<Rightarrow>
                  (case nest_dict_rec rest v
                          (case map_of kvs (fst (split1 sep k)) of None \<Rightarrow> Node [] | Some child \<Rightarrow> child)
                          sep of
                     Inl e \<Rightarrow> Inl e
                   | Inr sub \<Rightarrow> Inr (Node (AList.update (fst (split1 sep k)) sub kvs))))
         | None \<Rightarrow>
             (case out of
                Leaf x \<Rightarrow> Inl TypeError
              | Node kvs \<Rightarrow> Inr (Node (AList.update (fst (split1 sep k)) v kvs)))))"
  by pat_completeness auto
termination
proof (relation "measure (\<lambda>(k, v, out, sep). length k)")
  show "wf (measure (\<lambda>(k, v, out, sep). length k))" by simp
next
  fix k :: string and v out :: "'v cfg" and sep :: string and x2 x2a
  assume "sep \<noteq> []" and "snd (split1 sep k) = Some x2"
  then have "length x2 < length k"
    using split1_shorter [of sep k "fst (split1 sep k)" x2] by (simp add: prod_eq_iff)
  then show "((x2, v, (case map_of x2a (fst (split1 sep k)) of None \<Rightarrow> Node [] | Some child \<Rightarrow> child), sep),
              (k, v, out, sep)) \<in> measure (\<lambda>(k, v, out, sep). length k)"
    by simp
qed

declare nest_dict_rec.simps [simp del]

fun nest_loop :: "(string \<times> 'v cfg) list \<Rightarrow> 'v cfg \<Rightarrow> string \<Rightarrow> py_error + 'v cfg" where
  "nest_loop [] result sep = Inr result"
| "nest_loop ((k, v) # flat) result sep =
     (case nest_dict_rec k v result sep of
        Inl e \<Rightarrow> Inl e
      | Inr result' \<Rightarrow> nest_loop flat result' sep)"

definition nest_dict :: "(string \<times> 'v cfg) list \<Rightarrow> string \<Rightarrow> py_error + 'v cfg" where
  "nest_dict flat sep = nest_loop flat (Node []) sep"

text \<open>The default separator of both functions.\<close>

definition default_sep :: string where
  "default_sep = ''_''"

text \<open>
  The leaf of a configuration tree at a path of keys, and all its leaf values in
  depth-first order.
\<close>

fun leaf_at :: "'v cfg \<Rightarrow> string list \<Rightarrow> 'v option"
  and leaf_in :: "(string \<times> 'v cfg) list \<Rightarrow> string \<Rightarrow> string list \<Rightarrow> 'v option" where
  "leaf_at (Leaf x) p = (if p = [] then Some x else None)"
| "leaf_at (Node kvs) [] = None"
| "leaf_at (Node kvs) (k # p) = leaf_in kvs k p"
| "leaf_in [] k p = None"
| "leaf_in ((k', c) # rest) k p = (if k' = k then leaf_at c p else leaf_in rest k p)"

fun leaf_values :: "'v cfg \<Rightarrow> 'v list"
  and leaf_values_items :: "(string \<times> 'v cfg) list \<Rightarrow> 'v list" where
  "leaf_values (Leaf x) = [x]"
| "leaf_values (Node kvs) = leaf_values_items kvs"
| "leaf_values_items [] = []"
| "leaf_values_items ((k, c) # rest) = leaf_values c @ leaf_values_items rest"

text \<open>
  A well-formed configuration for the separator character \<open>c\<close>: in every dictionary the
  keys are pairwise different (as in any Python \<open>dict\<close>), non-empty and free of \<open>c\<close>.
\<close>

fun good_cfg :: "char \<Rightarrow> 'v cfg \<Rightarrow> bool"
  and good_items :: "char \<Rightarrow> (string \<times> 'v cfg) list \<Rightarrow> bool" where
  "good_cfg c (Leaf x) = True"
| "good_cfg c (Node kvs) = (distinct (map fst kvs) \<and> good_items c kvs)"
| "good_items c [] = True"
| "good_items c ((k, v) # rest) = (k \<noteq> [] \<and> c \<notin> set k \<and> good_cfg c v \<and> good_items c rest)"

text \<open>The number of dictionary levels of a configuration.\<close>

fun nesting :: "'v cfg \<Rightarrow> nat"
  and nesting_items :: "(string \<times> 'v cfg) list \<Rightarrow> nat" where
  "nesting (Leaf x) = 0"
| "nesting (Node kvs) = Suc (nesting_items kvs)"
| "nesting_items [] = 0"
| "nesting_items ((k, c) # rest) = max (nesting c) (nesting_items rest)"


text \<open>
  Auxiliary notions for reasoning about the two functions: the key that \<open>flatten_dict\<close>
  builds for a path of keys, the list of all leaf paths of a dictionary in the order of
  \<open>flatten_dict\<close>, and lists of paths none of which is a prefix of another.
\<close>

fun joinp :: "char \<Rightarrow> string list \<Rightarrow> string" where
  "joinp c [] = []"
| "joinp c [k] = k"
| "joinp c (k # k' # p) = k @ c # joinp c (k' # p)"

fun paths_items :: "(string \<times> 'v cfg) list \<Rightarrow> (string list \<times> 'v) list" where
  "paths_items [] = []"
| "paths_items ((k, Node d) # rest) = map (\<lambda>(p, x). (k # p, x)) (paths_items d) @ paths_items rest"
| "paths_items ((k, Leaf x) # rest) = ([k], x) # paths_items rest"

fun pfree :: "'a list list \<Rightarrow> bool" where
  "pfree [] = True"
| "pfree (p # ps) = ((\<forall>q \<in> set ps. \<not> prefix p q \<and> \<not> prefix q p) \<and> pfree ps)"

definition keyp :: "string \<Rightarrow> char \<Rightarrow> string list \<Rightarrow> string" where
  "keyp parent c p = (if parent \<noteq> [] then parent @ c # joinp c p else joinp c p)"


section \<open>model\_nerf.py: NeRFModel\<close>

text \<open>
  The values of a tensor: a scalar or the list of its slices along the first axis.
\<close>

datatype tensor = Scalar real | Arr "tensor list"

text \<open>
  A tensor as a data loader hands it to a step: its values and its memory layout. Of the
  layout only one fact matters here, whether the sizes and strides let \<open>view\<close> regroup
  the elements without a copy. It is true of every contiguous tensor and false, for
  instance, of the transpose of a \<open>2 x 3\<close> tensor.
\<close>

datatype torch_tensor = Torch (view_compatible: bool) (content: tensor)

fun flat :: "tensor \<Rightarrow> real list" where
  "flat (Scalar x) = [x]"
| "flat (Arr ts) = concat (map flat ts)"

fun chunks3 :: "real list \<Rightarrow> tensor list" where
  "chunks3 (a # b # c # rest) = Arr [Scalar a, Scalar b, Scalar c] # chunks3 rest"
| "chunks3 xs = []"

text \<open>
  \<open>t.view(-1, 3)\<close> regroups the elements in rows of three. It raises \<open>RuntimeError\<close> when
  the number of elements is not a multiple of three, and when the strides of \<open>t\<close> do not
  allow the regrouping.
\<close>

definition accepts_view3 :: "torch_tensor \<Rightarrow> bool" where
  "accepts_view3 t = (length (flat (content t)) mod 3 = 0 \<and> view_compatible t)"

definition view3 :: "torch_tensor \<Rightarrow> py_error + tensor" where
  "view3 t = (if accepts_view3 t then Inr (Arr (chunks3 (flat (content t)))) else Inl RuntimeError)"

definition rows :: "tensor \<Rightarrow> tensor list" where
  "rows t = (case t of Arr ts \<Rightarrow> ts | Scalar x \<Rightarrow> [])"

text \<open>\<open>t[..., :3]\<close>: the first three entries along the last axis.\<close>

fun cols3 :: "tensor \<Rightarrow> tensor" where
  "cols3 (Scalar x) = Scalar x"
| "cols3 (Arr ts) =
     (if \<forall>t \<in> set ts. (case t of Scalar x \<Rightarrow> True | Arr us \<Rightarrow> False)
      then Arr (take 3 ts) else Arr (map cols3 ts))"

text \<open>\<open>torch.cat(ts, 0)\<close>.\<close>

definition cat0 :: "tensor list \<Rightarrow> py_error + tensor" where
  "cat0 ts = (if ts = [] then Inl RuntimeError else Inr (Arr (concat (map rows ts))))"

text \<open>
  \<open>get_ray_batch\<close> returns a tuple of three tensors; a Python tuple is the list of its
  components.
\<close>

definition get_ray_batch :: "torch_tensor list \<Rightarrow> py_error + tensor list" where
  "get_ray_batch ray_batch =
     (case unpack 3 ray_batch of
        Inl e \<Rightarrow> Inl e
      | Inr xs \<Rightarrow>
          (case view3 (xs ! 0) of
             Inl e \<Rightarrow> Inl e
           | Inr ray_origins \<Rightarrow>
               (case view3 (xs ! 1) of
                  Inl e \<Rightarrow> Inl e
                | Inr ray_directions \<Rightarrow>
                    (case view3 (xs ! 2) of
                       Inl e \<Rightarrow> Inl e
                     | Inr targets \<Rightarrow> Inr [ray_origins, ray_directions, targets]))))"

text \<open>
  The state of a \<open>NeRFModel\<close> that its steps read. The sampler, the two networks and the
  volume renderer belong to the \<open>nerf\<close> package and to \<open>torch\<close>; they enter as the two
  functions \<open>render_coarse\<close> (interval sampling, coarse network, volume rendering:
  colour, disparity, opacity and weights) and \<open>render_fine\<close> (resampling from the weights,
  fine network, volume rendering). \<open>loss_fn\<close> is \<open>self.loss\<close>, \<open>mse2psnr\<close> the helper of the
  \<open>nerf\<close> package, \<open>lr\<close> the learning rate of the first optimizer.
\<close>

record nerf_model =
  training :: bool
  num_fine_train :: int
  num_fine_validation :: int
  has_model_fine :: bool
  chunksize :: int
  render_coarse :: "tensor \<Rightarrow> tensor \<Rightarrow> py_error + (tensor \<times> tensor \<times> tensor \<times> tensor)"
  render_fine :: "tensor \<Rightarrow> tensor \<Rightarrow> tensor \<Rightarrow> py_error + (tensor \<times> tensor \<times> tensor)"
  loss_fn :: "tensor \<Rightarrow> tensor \<Rightarrow> py_error + real"
  mse2psnr :: "real \<Rightarrow> real"
  lr :: real

record forward_out =
  rgb_coarse :: tensor
  disp_coarse :: tensor
  acc_coarse :: tensor
  rgb_fine :: "tensor option"
  disp_fine :: "tensor option"
  acc_fine :: "tensor option"

definition forward :: "nerf_model \<Rightarrow> tensor list \<Rightarrow> py_error + forward_out" where
  "forward m x =
     (case unpack 2 x of
        Inl e \<Rightarrow> Inl e
      | Inr xs \<Rightarrow>
          let ray_origins = xs ! 0;
              ray_directions = xs ! 1;
              num_fine = (if training m then num_fine_train m else num_fine_validation m)
          in (case render_coarse m ray_origins ray_directions of
                Inl e \<Rightarrow> Inl e
              | Inr (rgb_c, disp_c, acc_c, weights) \<Rightarrow>
                  if num_fine > 0 \<and> has_model_fine m then
                    (case render_fine m ray_origins ray_directions weights of
                       Inl e \<Rightarrow> Inl e
                     | Inr (rgb_f, disp_f, acc_f) \<Rightarrow>
                         Inr \<lparr>rgb_coarse = rgb_c, disp_coarse = disp_c, acc_coarse = acc_c,
                              rgb_fine = Some rgb_f, disp_fine = Some disp_f, acc_fine = Some acc_f\<rparr>)
                  else
                    Inr \<lparr>rgb_coarse = rgb_c, disp_coarse = disp_c, acc_coarse = acc_c,
                         rgb_fine = None, disp_fine = None, acc_fine = None\<rparr>))"

record step_output =
  loss :: real
  log :: "(string \<times> real) list"

definition training_step :: "nerf_model \<Rightarrow> torch_tensor list \<Rightarrow> nat \<Rightarrow> py_error + step_output" where
  "training_step m ray_batch batch_idx =
     (case get_ray_batch ray_batch of
        Inl e \<Rightarrow> Inl e
      | Inr res \<Rightarrow>
      (case unpack 3 res of
        Inl e \<Rightarrow> Inl e
      | Inr r \<Rightarrow>
      (case forward m [r ! 0, r ! 1] of
        Inl e \<Rightarrow> Inl e
      | Inr out \<Rightarrow>
      (case loss_fn m (rgb_coarse out) (r ! 2) of
        Inl e \<Rightarrow> Inl e
      | Inr coarse_loss \<Rightarrow>
          (case rgb_fine out of
             Some rgb_f \<Rightarrow>
               (case loss_fn m rgb_f (r ! 2) of
                  Inl e \<Rightarrow> Inl e
                | Inr fine_loss \<Rightarrow>
                    let mse_loss = coarse_loss + fine_loss;
                        psnr = mse2psnr m fine_loss
                    in Inr \<lparr>loss = mse_loss,
                            log = [(''train/loss'', mse_loss),
                                   (''train/coarse_loss'', coarse_loss),
                                   (''train/psnr'', psnr),
                                   (''train/lr'', lr m),
                                   (''train/fine_loss'', fine_loss),
                                   (''train/mse_loss'', mse_loss)]\<rparr>)
           | None \<Rightarrow>
               let psnr = mse2psnr m coarse_loss
               in Inr \<lparr>loss = coarse_loss,
                       log = [(''train/loss'', coarse_loss),
                              (''train/coarse_loss'', coarse_loss),
                              (''train/psnr'', psnr),
                              (''train/lr'', lr m)]\<rparr>)))))"

text \<open>
  The chunked loop of \<open>validation_step\<close> and what follows it. \<open>range(0, n, step)\<close> is
  empty for a negative step; a zero step is excluded before, by the division that computes
  \<open>batchcount\<close>. The calls to the logger are left out.
\<close>

definition py_range :: "int \<Rightarrow> int \<Rightarrow> int list" where
  "py_range n step =
     (if step > 0 then map (\<lambda>k. int k * step) [0..<nat ((n + step - 1) div step)] else [])"

record val_acc =
  sum_coarse :: real
  sum_fine :: real
  all_rgb_coarse :: "tensor list"
  all_rgb_fine :: "tensor list"
  last_rgb_fine :: "tensor option"

fun validation_loop ::
  "nerf_model \<Rightarrow> tensor list \<Rightarrow> tensor list \<Rightarrow> tensor \<Rightarrow> tensor list \<Rightarrow> int \<Rightarrow> int list \<Rightarrow> val_acc
     \<Rightarrow> py_error + val_acc" where
  "validation_loop m ray_origins ray_directions bounds targets batchsize [] acc = Inr acc"
| "validation_loop m ray_origins ray_directions bounds targets batchsize (i # is) acc =
     (case forward m [Arr (py_slice ray_origins i (i + batchsize)),
                      Arr (py_slice ray_directions i (i + batchsize)),
                      bounds] of
        Inl e \<Rightarrow> Inl e
      | Inr out \<Rightarrow>
      (case loss_fn m (cols3 (rgb_coarse out)) (cols3 (Arr (py_slice targets i (i + batchsize)))) of
        Inl e \<Rightarrow> Inl e
      | Inr lc \<Rightarrow>
          (case rgb_fine out of
             None \<Rightarrow>
               validation_loop m ray_origins ray_directions bounds targets batchsize is
                 (acc\<lparr>sum_coarse := sum_coarse acc + lc,
                      all_rgb_coarse := all_rgb_coarse acc @ [rgb_coarse out],
                      last_rgb_fine := None\<rparr>)
           | Some rgb_f \<Rightarrow>
               (case loss_fn m (cols3 rgb_f) (cols3 (Arr (py_slice targets i (i + batchsize)))) of
                  Inl e \<Rightarrow> Inl e
                | Inr lf \<Rightarrow>
                    validation_loop m ray_origins ray_directions bounds targets batchsize is
                      (acc\<lparr>sum_coarse := sum_coarse acc + lc,
                           sum_fine := sum_fine acc + lf,
                           all_rgb_coarse := all_rgb_coarse acc @ [rgb_coarse out],
                           all_rgb_fine := all_rgb_fine acc @ [rgb_f],
                           last_rgb_fine := Some rgb_f\<rparr>)))))"

record val_output =
  val_loss :: real
  val_coarse_loss :: real
  val_psnr :: real
  val_fine_loss :: "real option"

definition validation_chunks ::
  "nerf_model \<Rightarrow> tensor \<Rightarrow> tensor \<Rightarrow> tensor \<Rightarrow> tensor \<Rightarrow> py_error + val_output" where
  "validation_chunks m ray_origins ray_directions bounds targets =
     (let batchsize = chunksize m;
          n = int (length (rows ray_origins))
      in if batchsize = 0 then Inl ZeroDivisionError
         else
           let batchcount = real_of_int n / real_of_int batchsize in
           (case validation_loop m (rows ray_origins) (rows ray_directions) bounds (rows targets)
                   batchsize (py_range n batchsize)
                   \<lparr>sum_coarse = 0, sum_fine = 0, all_rgb_coarse = [], all_rgb_fine = [],
                    last_rgb_fine = None\<rparr> of
              Inl e \<Rightarrow> Inl e
            | Inr acc \<Rightarrow>
                (case cat0 (all_rgb_coarse acc) of
                   Inl e \<Rightarrow> Inl e
                 | Inr rgb_c \<Rightarrow>
                     let coarse_loss = sum_coarse acc / batchcount in
                     (case last_rgb_fine acc of
                        Some rgb_f \<Rightarrow>
                          let fine_loss = sum_fine acc / batchcount;
                              l = fine_loss + coarse_loss
                          in Inr \<lparr>val_loss = l, val_coarse_loss = coarse_loss,
                                  val_psnr = mse2psnr m l, val_fine_loss = Some fine_loss\<rparr>
                      | None \<Rightarrow>
                          Inr \<lparr>val_loss = coarse_loss, val_coarse_loss = coarse_loss,
                               val_psnr = mse2psnr m coarse_loss, val_fine_loss = None\<rparr>))))"

definition validation_step :: "nerf_model \<Rightarrow> torch_tensor list \<Rightarrow> nat \<Rightarrow> py_error + val_output" where
  "validation_step m image_ray_batch batch_idx =
     (case get_ray_batch image_ray_batch of
        Inl e \<Rightarrow> Inl e
      | Inr res \<Rightarrow>
          (case unpack 4 res of
             Inl e \<Rightarrow> Inl e
           | Inr r \<Rightarrow> validation_chunks m (r ! 0) (r ! 1) (r ! 2) (r ! 3)))"


section \<open>mesh\_nerf.py: recolouring the mesh\<close>

text \<open>
  The branch \<open>if not specific_view\<close> of \<open>main\<close>. An array of shape \<open>(n, 3)\<close> is the list of
  its rows; it becomes a tensor when it is handed to the model.
\<close>

definition batch_size :: int where
  "batch_size = 160 * 8 * 8"

definition reorder :: "vec3 \<Rightarrow> vec3" where
  "reorder v = (case v of (a, b, c) \<Rightarrow> (b, a, c))"

definition neg3 :: "vec3 \<Rightarrow> vec3" where
  "neg3 v = (case v of (a, b, c) \<Rightarrow> (- a, - b, - c))"

definition ray_origin_of :: "real \<Rightarrow> vec3 \<Rightarrow> vec3 \<Rightarrow> vec3" where
  "ray_origin_of view_disparity target inv_normal =
     (case target of (t0, t1, t2) \<Rightarrow> case inv_normal of (n0, n1, n2) \<Rightarrow>
        (t0 - view_disparity * n0, t1 - view_disparity * n1, t2 - view_disparity * n2))"

definition tensor_of_rows :: "vec3 list \<Rightarrow> tensor" where
  "tensor_of_rows rs = Arr (map (\<lambda>(a, b, c). Arr [Scalar a, Scalar b, Scalar c]) rs)"

fun recolor_loop ::
  "nerf_model \<Rightarrow> vec3 list \<Rightarrow> vec3 list \<Rightarrow> tensor list \<Rightarrow> int \<Rightarrow> nat list \<Rightarrow> tensor list
     \<Rightarrow> py_error + tensor list" where
  "recolor_loop m ray_origins inv_normals bounds_rows n_vertices [] pred = Inr pred"
| "recolor_loop m ray_origins inv_normals bounds_rows n_vertices (idx # rest) pred =
     (let offset1 = batch_size * int idx;
          offset2 = min (batch_size * (int idx + 1)) n_vertices;
          pos_batch = tensor_of_rows (py_slice ray_origins offset1 offset2);
          normal_batch = tensor_of_rows (py_slice inv_normals offset1 offset2);
          ray_bounds_batch = Arr (py_slice bounds_rows 0 (offset2 - offset1))
      in (case forward m [pos_batch, normal_batch, ray_bounds_batch] of
            Inl e \<Rightarrow> Inl e
          | Inr out \<Rightarrow>
              (case rgb_fine out of
                 None \<Rightarrow> Inl AttributeError
               | Some diffuse \<Rightarrow>
                   recolor_loop m ray_origins inv_normals bounds_rows n_vertices rest (pred @ [diffuse]))))"

definition recolor :: "nerf_model \<Rightarrow> real \<Rightarrow> int \<Rightarrow> vec3 list \<Rightarrow> vec3 list \<Rightarrow> py_error + tensor" where
  "recolor m limit N vertices normals =
     (if N = 0 then Inl ZeroDivisionError
      else
        let view_disparity = 2 * limit / real_of_int N;
            targets = map reorder vertices;
            inv_normals = map reorder (map neg3 normals);
            ray_origins = map2 (ray_origin_of view_disparity) targets inv_normals;
            bounds_rows = replicate (nat batch_size) (Arr [Scalar 0.001, Scalar (2 * view_disparity)])
        in (case recolor_loop m ray_origins inv_normals bounds_rows (int (length vertices))
                   [0..<Suc (length targets div nat batch_size)] [] of
              Inl e \<Rightarrow> Inl e
            | Inr pred \<Rightarrow> cat0 pred))"


section \<open>nerf/models.py: the network variants\<close>

text \<open>
  The layers of a network are functions on tensors of an arbitrary type \<open>'t\<close>; they
  belong to \<open>nerf.modules\<close> and \<open>torch\<close>. \<open>cat\<close> is \<open>torch.cat\<close> along the last axis and
  \<open>relu\<close> is \<open>torch.nn.functional.relu\<close>; every variant uses them. \<open>SimpleModel\<close> and
  \<open>SpecularSimpleModel\<close> have the same attributes, the second two more; \<open>FlatModel\<close> and
  \<open>ResModel\<close> have the same attribute names.
\<close>

record 't ops =
  cat :: "'t \<Rightarrow> 't \<Rightarrow> 't"
  relu :: "'t \<Rightarrow> 't"

record 't heads = "'t ops" +
  depth :: "'t \<Rightarrow> 't"
  color :: "'t \<Rightarrow> 't"

record 't simple_model = "'t heads" +
  encode_xyz :: "'t \<Rightarrow> 't"
  encode_dir :: "'t \<Rightarrow> 't"
  layer0 :: "'t \<Rightarrow> 't"
  hidden_all :: "'t \<Rightarrow> 't \<Rightarrow> 't"
  hidden_layers_view_amount :: int
  hidden_view :: "'t \<Rightarrow> 't \<Rightarrow> 't"

record 't specular_simple_model = "'t simple_model" +
  specular :: "'t \<Rightarrow> 't"
  combine :: "'t \<Rightarrow> 't \<Rightarrow> 't"

record 't embed_model = "'t heads" +
  embed :: "'t \<Rightarrow> 't"
  model0 :: "'t \<Rightarrow> 't"
  model1 :: "'t \<Rightarrow> 't"

definition SimpleModel_forward ::
  "('t, 'z) simple_model_scheme \<Rightarrow> 't \<Rightarrow> 't option \<Rightarrow> py_error + 't" where
  "SimpleModel_forward m ray_points ray_directions =
     (let xyz = encode_xyz m ray_points;
          x = layer0 m xyz;
          x = hidden_all m x xyz;
          d = depth m x;
          x = (if hidden_layers_view_amount m \<ge> 0 \<and> ray_directions \<noteq> None
               then hidden_view m x (cat m xyz (encode_dir m (the ray_directions)))
               else x);
          c = color m x
      in Inr (cat m c d))"

definition SpecularSimpleModel_forward ::
  "'t specular_simple_model \<Rightarrow> 't \<Rightarrow> 't option \<Rightarrow> py_error + ('t \<times> 't)" where
  "SpecularSimpleModel_forward m ray_points ray_directions =
     (let xyz = encode_xyz m ray_points;
          x = layer0 m xyz;
          x = hidden_all m x xyz;
          d = depth m x;
          c = color m x
      in if hidden_layers_view_amount m \<ge> 0 \<and> ray_directions \<noteq> None
         then
           let xyzdir = cat m xyz (encode_dir m (the ray_directions));
               x = hidden_view m x xyzdir;
               s = relu m (specular m x);
               c = combine m c s
           in Inr (cat m c d, s)
         else Inl (UnboundLocalError ''specular''))"

definition FlatModel_forward :: "'t embed_model \<Rightarrow> 't \<Rightarrow> 't option \<Rightarrow> py_error + 't" where
  "FlatModel_forward m ray_points ray_directions =
     (let x = embed m ray_points;
          x_hat = model0 m x;
          x = model1 m (cat m x x_hat);
          d = depth m x;
          c = color m x
      in Inr (cat m c d))"

definition ResModel_forward :: "'t embed_model \<Rightarrow> 't \<Rightarrow> 't option \<Rightarrow> py_error + 't" where
  "ResModel_forward m ray_points ray_directions =
     (let x = embed m ray_points;
          x_hat = model0 m x;
          x = model1 m x_hat;
          d = depth m x;
          c = color m x
      in Inr (cat m c d))"


text \<open>
  \<open>FlexibleNeRFModel\<close>. Its attributes \<open>encode_xyz\<close> and \<open>encode_dir\<close> are the fields
  \<open>nerf_encode_xyz\<close> and \<open>nerf_encode_dir\<close>; the linear layers are functions on tensors.
\<close>

record 't flexible_nerf_model = "'t ops" +
  nerf_encode_xyz :: "'t \<Rightarrow> 't"
  nerf_encode_dir :: "'t \<Rightarrow> 't"
  skip_connect_every :: int
  num_layers :: int
  layer1 :: "'t \<Rightarrow> 't"
  layers_xyz :: "('t \<Rightarrow> 't) list"
  use_viewdirs :: bool
  layers_dir :: "('t \<Rightarrow> 't) list"
  fc_alpha :: "'t \<Rightarrow> 't"
  fc_rgb :: "'t \<Rightarrow> 't"
  fc_feat :: "'t \<Rightarrow> 't"
  fc_out :: "'t \<Rightarrow> 't"

text \<open>
  Modelled from the spec: \<open>PositionalEncoding\<close> of \<open>nerf.modules\<close>, whose source is not
  part of the files at hand. Given a tensor it prepends the raw input (optionally) and
  appends the sines and cosines of the input scaled by the frequency bands; that
  arithmetic is the function \<open>enc\<close>. Called with \<open>None\<close> in place of the tensor it has
  nothing to scale, and the call raises \<open>TypeError\<close>.
\<close>

definition positional_encoding :: "('t \<Rightarrow> 't) \<Rightarrow> 't option \<Rightarrow> py_error + 't" where
  "positional_encoding enc x = (case x of None \<Rightarrow> Inl TypeError | Some t \<Rightarrow> Inr (enc t))"

text \<open>The loop over \<open>enumerate(self.layers_xyz)\<close>; \<open>i % self.skip_connect_every\<close> raises
  when \<open>skip_connect_every\<close> is zero.\<close>

fun xyz_loop ::
  "'t flexible_nerf_model \<Rightarrow> 't \<Rightarrow> nat \<Rightarrow> ('t \<Rightarrow> 't) list \<Rightarrow> 't \<Rightarrow> py_error + 't" where
  "xyz_loop m xyz i [] x = Inr x"
| "xyz_loop m xyz i (layer # rest) x =
     (if skip_connect_every m = 0 then Inl ZeroDivisionError
      else
        let x' = (if int i mod skip_connect_every m = 0 \<and> i > 0 \<and> int i \<noteq> num_layers m - 1
                  then cat m x xyz else x)
        in xyz_loop m xyz (Suc i) rest (relu m (layer x')))"

definition FlexibleNeRFModel_forward ::
  "'t flexible_nerf_model \<Rightarrow> 't \<Rightarrow> 't option \<Rightarrow> py_error + 't" where
  "FlexibleNeRFModel_forward m ray_points ray_directions =
     (let xyz = nerf_encode_xyz m ray_points in
      case xyz_loop m xyz 0 (layers_xyz m) (layer1 m xyz) of
        Inl e \<Rightarrow> Inl e
      | Inr x \<Rightarrow>
          if use_viewdirs m then
            (case positional_encoding (nerf_encode_dir m) ray_directions of
               Inl e \<Rightarrow> Inl e
             | Inr view \<Rightarrow>
                 let feat = relu m (fc_feat m x);
                     alpha = fc_alpha m x;
                     x = fold (\<lambda>l x. relu m (l x)) (layers_dir m) (cat m feat view);
                     rgb = fc_rgb m x
                 in Inr (cat m rgb alpha))
          else Inr (fc_out m x))"


section \<open>Concrete values used to instantiate the theorems\<close>

definition demo_model :: nerf_model where
  "demo_model =
     \<lparr>training = True, num_fine_train = 64, num_fine_validation = 64, has_model_fine = True,
      chunksize = 2,
      render_coarse = (\<lambda>ro rd. Inr (ro, ro, ro, ro)),
      render_fine = (\<lambda>ro rd w. Inr (rd, rd, rd)),
      loss_fn = (\<lambda>a b. Inr (real (length (flat a)))),
      mse2psnr = (\<lambda>x. - 10 * x),
      lr = 1\<rparr>"

definition demo_pool :: "int \<Rightarrow> nat ray_pool" where
  "demo_pool R =
     \<lparr>num_random_rays = R, ray_targets = [0, 1, 2, 3, 4], all_ray_origins = [0, 1, 2, 3, 4],
      all_ray_directions = [0, 1, 2, 3, 4], ray_bounds = [0, 1, 2, 3, 4]\<rparr>"

definition demo_specular :: "int \<Rightarrow> nat specular_simple_model" where
  "demo_specular hlv =
     \<lparr>cat = (\<lambda>x y. x + y), relu = (\<lambda>x. x), depth = (\<lambda>x. x + 1), color = (\<lambda>x. x + 2),
      encode_xyz = (\<lambda>x. 2 * x), encode_dir = (\<lambda>x. 3 * x), layer0 = (\<lambda>x. x),
      hidden_all = (\<lambda>x y. x + y), hidden_layers_view_amount = hlv, hidden_view = (\<lambda>x y. x + y),
      specular = (\<lambda>x. x), combine = (\<lambda>x y. x * y)\<rparr>"

definition demo_embed :: "nat embed_model" where
  "demo_embed =
     \<lparr>cat = (\<lambda>x y. x + y), relu = (\<lambda>x. x), depth = (\<lambda>x. x + 1), color = (\<lambda>x. x + 2),
      embed = (\<lambda>x. 2 * x), model0 = (\<lambda>x. x), model1 = (\<lambda>x. x)\<rparr>"

definition demo_flexible :: "nat flexible_nerf_model" where
  "demo_flexible =
     \<lparr>cat = (\<lambda>x y. x + y), relu = (\<lambda>x. x),
      nerf_encode_xyz = (\<lambda>x. 2 * x), nerf_encode_dir = (\<lambda>x. 3 * x),
      skip_connect_every = 4, num_layers = 4,
      layer1 = (\<lambda>x. x + 1), layers_xyz = [\<lambda>x. x + 1, \<lambda>x. x + 1, \<lambda>x. x + 1],
      use_viewdirs = True, layers_dir = [\<lambda>x. x + 1],
      fc_alpha = (\<lambda>x. x), fc_rgb = (\<lambda>x. x), fc_feat = (\<lambda>x. x), fc_out = (\<lambda>x. x)\<rparr>"

definition row3 :: tensor where
  "row3 = Arr [Scalar 1, Scalar 2, Scalar 3]"

definition row4 :: tensor where
  "row4 = Arr [Scalar 1, Scalar 2, Scalar 3, Scalar 4]"

definition transposed_2x3 :: torch_tensor where
  "transposed_2x3 =
     Torch False (Arr [Arr [Scalar 0, Scalar 3], Arr [Scalar 1, Scalar 4], Arr [Scalar 2, Scalar 5]])"


definition cfg_sep_in_key :: "(string \<times> int cfg) list" where
  "cfg_sep_in_key = [(''a'', Node [(''b_c'', Leaf 1), (''b'', Node [(''c'', Leaf 2)])])]"

definition cfg_empty_key :: "(string \<times> int cfg) list" where
  "cfg_empty_key = [([], Node [(''a'', Node [(''b'', Leaf 1)])])]"

definition cfg_plain :: "(string \<times> int cfg) list" where
  "cfg_plain = [(''nerf'', Node [(''train'', Node [(''chunksize'', Leaf 8), (''perturb'', Leaf 1)])]),
                (''seed'', Leaf 42)]"


section \<open>The geometry cache is written to one path and read from another\<close>

text \<open>
  C10. The \<open>--cache-mesh\<close> branch saves the geometry under
  \<open>join(save_dir, save_dir + "mesh_cache.npy")\<close>, the \<open>--no-cache-mesh\<close> branch loads
  \<open>join(save_dir, "mesh_cache.npy")\<close>. For every \<open>save_dir\<close> whose last path component is
  not empty the two paths differ, so a run that saves (without super-sampling) followed by
  a run that loads, with the same \<open>save_dir\<close>, loads exactly what it would have loaded had
  the first run never saved: not the geometry just written.
\<close>

theorem cache_paths_differ:
  assumes "save_dir a \<noteq> []" and "last (save_dir a) \<noteq> CHR ''/''"
    and "cache_mesh a" and "super_sampling a < 1"
  shows "cache_save_path (save_dir a) \<noteq> cache_load_path (save_dir a) \<and>
         geometry_stage a g fs = Inr (fs(cache_save_path (save_dir a) \<mapsto> NpyCache g), Some g) \<and>
         map_sum id snd (geometry_stage (a\<lparr>cache_mesh := False\<rparr>) g'
                           (fs(cache_save_path (save_dir a) \<mapsto> NpyCache g)))
           = map_sum id snd (geometry_stage (a\<lparr>cache_mesh := False\<rparr>) g' fs)"
proof -
  have ne: "cache_save_path (save_dir a) \<noteq> cache_load_path (save_dir a)"
    using assms(1,2)
    by (auto simp: cache_save_path_def cache_load_path_def os_path_join_def hd_append)
  have st: "geometry_stage a g fs = Inr (fs(cache_save_path (save_dir a) \<mapsto> NpyCache g), Some g)"
    using assms(3,4) by (simp add: geometry_stage_def)
  have ld: "map_sum id snd (geometry_stage (a\<lparr>cache_mesh := False\<rparr>) g'
                              (fs(cache_save_path (save_dir a) \<mapsto> NpyCache g)))
              = map_sum id snd (geometry_stage (a\<lparr>cache_mesh := False\<rparr>) g' fs)"
    using ne by (auto simp: geometry_stage_def split: option.splits stored.splits)
  from ne st ld show ?thesis by blast
qed

theorem cache_paths_differ_witness:
  "cache_save_path ''out'' = ''out/outmesh_cache.npy'' \<and>
   cache_load_path ''out'' = ''out/mesh_cache.npy'' \<and>
   geometry_stage \<lparr>cache_mesh = False, save_dir = ''out'', super_sampling = 0\<rparr> (2::nat)
      ((Map.empty :: string \<rightharpoonup> nat stored)(cache_save_path ''out'' \<mapsto> NpyCache 1))
     = Inl FileNotFoundError"
  using cache_paths_differ
          [of "\<lparr>cache_mesh = True, save_dir = ''out'', super_sampling = 0\<rparr>" "1::nat" "Map.empty" 2]
  by (simp add: cache_save_path_def cache_load_path_def os_path_join_def geometry_stage_def)


section \<open>get\_rays and the camera model\<close>

text \<open>
  C5. \<open>get_rays\<close> raises \<open>NotImplementedError\<close>, with a message that names the camera
  model, for every camera model other than \<open>"SIMPLE_RADIAL"\<close>; for \<open>"SIMPLE_RADIAL"\<close> it
  never raises that error, whatever the other arguments.
\<close>

theorem get_rays_camera_model:
  "(camera_model \<noteq> ''SIMPLE_RADIAL'' \<longrightarrow>
      get_rays H W camera poses camera_model resolution
        = Inl (NotImplementedError (''Camera model '' @ camera_model @ '' not implemented!''))) \<and>
   (\<forall>msg. get_rays H W camera poses ''SIMPLE_RADIAL'' resolution \<noteq> Inl (NotImplementedError msg))"
  by (auto simp: get_rays_def dummy_rays_simple_radial_def stack_def Let_def
           split: sum.splits prod.splits if_splits)

theorem get_rays_camera_model_witness:
  "get_rays 1 1 [1, 0, 0] [] ''PINHOLE'' 1
     = Inl (NotImplementedError ''Camera model PINHOLE not implemented!'') \<and>
   get_rays 1 1 [1, 0, 0] [] ''SIMPLE_RADIAL'' 1 = Inl RuntimeError"
  using get_rays_camera_model [of "''PINHOLE''" 1 1 "[1, 0, 0]" "[]" 1]
  by (simp add: get_rays_def dummy_rays_simple_radial_def stack_def meshgrid_xy_def arange_def)


section \<open>When CachingDataset fills the cache\<close>

text \<open>
  C4, as stated, at the \<open>type\<close> argument \<open>"train"\<close>, the string that
  \<open>NeRFModel.train_dataloader\<close> passes: it is not a member of \<open>DatasetType\<close>, the
  assertion at the head of the constructor fails, and \<open>cache_dataset()\<close> is not invoked
  although \<open>use_caching\<close> and \<open>override_caching\<close> are set and the cache directory does not
  exist.
\<close>

theorem caching_assert_counterexample:
  "caching_init \<lparr>use_caching = True, override_caching = True, cache_dir = ''cache''\<rparr>
      (Other ''train'') (\<lambda>fs. Inr (fs @ [''cache/train/0000.data''])) None []
     = \<lparr>trace = [], files = [], raised = Some AssertionError\<rparr> \<and>
   \<not> cache_dataset_invoked
       (caching_init \<lparr>use_caching = True, override_caching = True, cache_dir = ''cache''\<rparr>
          (Other ''train'') (\<lambda>fs. Inr (fs @ [''cache/train/0000.data''])) None [])"
  by (simp add: caching_init_def cache_dataset_invoked_def)

text \<open>
  C4, amended. With \<open>use_caching\<close> enabled and a \<open>type\<close> argument that is a member of
  \<open>DatasetType\<close>, so that the constructor's assertion passes, \<open>CachingDataset.__init__\<close>
  invokes the subclass's \<open>cache_dataset()\<close> if and only if \<open>override_caching\<close> is set or
  the cache directory did not exist before the call; in particular it is invoked whenever
  the directory had to be created, whatever the override flag. When it is invoked, it is
  applied to the file system with the cache directory in place; its exception is the
  constructor's, and the files it leaves are the ones the constructor lists. When it is
  not invoked, the constructor does the same whatever \<open>cache_dataset\<close> is.
\<close>

theorem caching_decision:
  assumes "use_caching cfg"
  shows "(cache_dataset_invoked (caching_init cfg (Member t) cache_dataset load_dataset fs)
            \<longleftrightarrow> (override_caching cfg \<or> cache_dir cfg \<notin> set fs)) \<and>
         (override_caching cfg \<or> cache_dir cfg \<notin> set fs \<longrightarrow>
            caching_init cfg (Member t) cache_dataset load_dataset fs =
              (case cache_dataset (ensure_cache_dir cfg t fs) of
                 Inl e \<Rightarrow>
                   \<lparr>trace = trace (caching_init cfg (Member t) cache_dataset load_dataset fs),
                    files = ensure_cache_dir cfg t fs, raised = Some e\<rparr>
               | Inr fs2 \<Rightarrow>
                   \<lparr>trace = trace (caching_init cfg (Member t) cache_dataset load_dataset fs),
                    files = fs2,
                    raised = (if glob_data (cache_path cfg t) fs2 = []
                              then Some (IndexError ''list index out of range'') else None)\<rparr>)) \<and>
         (\<not> (override_caching cfg \<or> cache_dir cfg \<notin> set fs) \<longrightarrow>
            (\<forall>other. caching_init cfg (Member t) other load_dataset fs
                       = caching_init cfg (Member t) cache_dataset load_dataset fs) \<and>
            files (caching_init cfg (Member t) cache_dataset load_dataset fs) = fs)"
proof -
  have inv: "cache_dataset_invoked (caching_init cfg (Member t) cache_dataset load_dataset fs)
               \<longleftrightarrow> (override_caching cfg \<or> cache_dir cfg \<notin> set fs)"
    using assms
    by (auto simp: cache_dataset_invoked_def caching_init_def init_from_cache_def Let_def
             split: sum.splits list.splits)
  have run: "caching_init cfg (Member t) cache_dataset load_dataset fs =
              (case cache_dataset (ensure_cache_dir cfg t fs) of
                 Inl e \<Rightarrow>
                   \<lparr>trace = trace (caching_init cfg (Member t) cache_dataset load_dataset fs),
                    files = ensure_cache_dir cfg t fs, raised = Some e\<rparr>
               | Inr fs2 \<Rightarrow>
                   \<lparr>trace = trace (caching_init cfg (Member t) cache_dataset load_dataset fs),
                    files = fs2,
                    raised = (if glob_data (cache_path cfg t) fs2 = []
                              then Some (IndexError ''list index out of range'') else None)\<rparr>)"
    if "override_caching cfg \<or> cache_dir cfg \<notin> set fs"
    using assms that
    by (auto simp: caching_init_def init_from_cache_def Let_def split: sum.splits list.splits)
  have skip: "(\<forall>other. caching_init cfg (Member t) other load_dataset fs
                       = caching_init cfg (Member t) cache_dataset load_dataset fs) \<and>
              files (caching_init cfg (Member t) cache_dataset load_dataset fs) = fs"
    if "\<not> (override_caching cfg \<or> cache_dir cfg \<notin> set fs)"
    using assms that
    by (auto simp: caching_init_def init_from_cache_def ensure_cache_dir_def Let_def
             split: list.splits)
  from inv run skip show ?thesis by blast
qed

theorem caching_decision_witness:
  "cache_dataset_invoked
     (caching_init \<lparr>use_caching = True, override_caching = False, cache_dir = ''cache''\<rparr>
        (Member TRAIN) (\<lambda>fs. Inr (fs @ [''cache/train/0000.data''])) None []) \<and>
   files
     (caching_init \<lparr>use_caching = True, override_caching = False, cache_dir = ''cache''\<rparr>
        (Member TRAIN) (\<lambda>fs. Inr (fs @ [''cache/train/0000.data''])) None [])
     = [''cache'', ''cache/train'', ''cache/train/0000.data''] \<and>
   raised
     (caching_init \<lparr>use_caching = True, override_caching = False, cache_dir = ''cache''\<rparr>
        (Member TRAIN) (\<lambda>fs. Inl RuntimeError) None [])
     = Some RuntimeError \<and>
   \<not> cache_dataset_invoked
     (caching_init \<lparr>use_caching = True, override_caching = False, cache_dir = ''cache''\<rparr>
        (Member TRAIN) (\<lambda>fs. Inr (fs @ [''cache/train/0000.data''])) None [''cache'']) \<and>
   raised
     (caching_init \<lparr>use_caching = True, override_caching = False, cache_dir = ''cache''\<rparr>
        (Member TRAIN) (\<lambda>fs. Inr (fs @ [''cache/train/0000.data''])) None [''cache''])
     = Some (IndexError ''list index out of range'')"
  using caching_decision
          [of "\<lparr>use_caching = True, override_caching = False, cache_dir = ''cache''\<rparr>"
              TRAIN "\<lambda>fs. Inr (fs @ [''cache/train/0000.data''])" None "[]"]
        caching_decision
          [of "\<lparr>use_caching = True, override_caching = False, cache_dir = ''cache''\<rparr>"
              TRAIN "\<lambda>fs. Inl RuntimeError" None "[]"]
        caching_decision
          [of "\<lparr>use_caching = True, override_caching = False, cache_dir = ''cache''\<rparr>"
              TRAIN "\<lambda>fs. Inr (fs @ [''cache/train/0000.data''])" None "[''cache'']"]
  by (simp add: caching_init_def init_from_cache_def ensure_cache_dir_def cache_path_def
        os_path_join_def makedirs_def ancestors_def glob_data_def suffix_def upt_rec)


section \<open>Length and range check of the pooled datasets\<close>

text \<open>
  C6, as stated, at \<open>num_random_rays = 0\<close>: the mode test \<open>num_random_rays >= 0\<close> selects
  pooled mode, \<open>__len__\<close> divides by zero, and \<open>__getitem__\<close>, which calls \<open>__len__\<close>
  first, raises the same \<open>ZeroDivisionError\<close> instead of an \<open>IndexError\<close>.
\<close>

theorem pool_zero_rays_counterexample:
  "pool_len (demo_pool 0) = Inl ZeroDivisionError \<and>
   colmap_getitem (demo_pool 0) 0 = Inl ZeroDivisionError \<and>
   llff_getitem (demo_pool 0) 0 = Inl ZeroDivisionError"
  by (simp add: demo_pool_def pool_len_def int_truediv_def colmap_getitem_def llff_getitem_def)

text \<open>
  C6, amended. For \<open>ColmapDataset\<close> and \<open>LLFFColmapDataset\<close> in pooled mode with
  \<open>num_random_rays = R > 0\<close> and a pool of \<open>T\<close> rays, \<open>len(dataset)\<close> is \<open>floor(T / R)\<close> and
  \<open>__getitem__(idx)\<close> raises \<open>IndexError\<close> for every \<open>idx >= len(dataset)\<close>.
\<close>

theorem pool_len_getitem:
  assumes "num_random_rays ds > 0"
  shows "pool_len ds = Inr \<lfloor>real (length (ray_targets ds)) / real_of_int (num_random_rays ds)\<rfloor> \<and>
         (\<forall>idx. idx \<ge> \<lfloor>real (length (ray_targets ds)) / real_of_int (num_random_rays ds)\<rfloor> \<longrightarrow>
            colmap_getitem ds idx = Inl (IndexError ''Not a valid batch number!'') \<and>
            llff_getitem ds idx = Inl (IndexError ''Not a valid batch number!''))"
proof -
  let ?T = "int (length (ray_targets ds))" and ?R = "num_random_rays ds"
  have fl: "\<lfloor>real (length (ray_targets ds)) / real_of_int ?R\<rfloor> = ?T div ?R"
    using floor_divide_of_int_eq [of ?T ?R] by simp
  have "int_truediv ?T ?R = Inr (?T div ?R)"
    using assms by (cases "length (ray_targets ds) = 0") (simp_all add: int_truediv_def)
  then have len: "pool_len ds = Inr (?T div ?R)"
    using assms by (simp add: pool_len_def)
  show ?thesis
    unfolding fl using len by (simp add: colmap_getitem_def llff_getitem_def)
qed

theorem pool_len_getitem_witness:
  "pool_len (demo_pool 2) = Inr 2 \<and>
   colmap_getitem (demo_pool 2) 2 = Inl (IndexError ''Not a valid batch number!'') \<and>
   llff_getitem (demo_pool 2) 2 = Inl (IndexError ''Not a valid batch number!'')"
  using pool_len_getitem [of "demo_pool 2"]
  by (simp add: demo_pool_def)


section \<open>ScanNetDataset: skip together with skip\_every\<close>

text \<open>
  C7. A dataset built with \<open>skip = 2\<close> should read frame \<open>2 * i\<close> whatever \<open>skip_every\<close>
  is. The constructor stores \<open>self.skip_every\<close> before it resets the local variable, so
  with \<open>skip = 2\<close> and \<open>skip_every = 3\<close> over 20 frames (\<open>stop = 10\<close>) item 2 reads frame 5,
  where the same dataset without \<open>skip_every\<close> reads frame 4; the length is 5 either way.
\<close>

theorem scannet_skip_ignores_exclusion:
  "scannet_getitem_frame (scannet_init [0..<20] 10 (Some 2) (Some 3)) 2 = Inr 5 \<and>
   scannet_getitem_frame (scannet_init [0..<20] 10 (Some 2) None) 2 = Inr 4 \<and>
   scannet_len (scannet_init [0..<20] 10 (Some 2) (Some 3)) = 5 \<and>
   scannet_len (scannet_init [0..<20] 10 (Some 2) None) = 5"
  by (simp add: scannet_getitem_frame_def scannet_init_def scannet_item_def scannet_len_def
        truthy_def py_ceil_div_def py_index_def Let_def)


section \<open>Destructuring in the steps of NeRFModel\<close>

lemma forward_three: "forward m [a, b, c] = Inl (ValueError ''too many values to unpack'')"
  by (simp add: forward_def unpack_def)

lemma get_ray_batch_cases:
  "get_ray_batch b =
     (if length b < 3 then Inl (ValueError ''not enough values to unpack'')
      else if 3 < length b then Inl (ValueError ''too many values to unpack'')
      else if \<forall>t \<in> set b. accepts_view3 t
           then Inr (map (\<lambda>t. Arr (chunks3 (flat (content t)))) b)
           else Inl RuntimeError)"
proof (cases "length b = 3")
  case False
  then show ?thesis by (auto simp: get_ray_batch_def unpack_def)
next
  case True
  then obtain x y z where b: "b = [x, y, z]"
    by (metis (no_types, lifting) length_0_conv length_Suc_conv numeral_3_eq_3)
  show ?thesis unfolding b by (simp add: get_ray_batch_def unpack_def view3_def)
qed

text \<open>
  C3, as stated, at two batches of three tensors: one whose last tensor has four elements
  (one RGBA pixel), and one whose last tensor is the transpose of a \<open>2 x 3\<close> tensor. In
  both \<open>get_ray_batch\<close> fails in \<open>view(-1, 3)\<close> with \<open>RuntimeError\<close>, which is not a
  tuple-arity error.
\<close>

theorem validation_step_view_counterexample:
  "validation_step demo_model [Torch True row3, Torch True row3, Torch True row4] 0 = Inl RuntimeError \<and>
   validation_step demo_model [Torch True row3, Torch True row3, transposed_2x3] 0 = Inl RuntimeError"
  by (simp add: validation_step_def get_ray_batch_def unpack_def view3_def accepts_view3_def
        row3_def row4_def transposed_2x3_def)

text \<open>
  C3, amended. For every input batch of tensors \<open>validation_step\<close> raises before any
  loss is computed, so the chunked loop never completes. The error is a tuple-arity
  \<open>ValueError\<close> when the batch does not have exactly three components (raised inside
  \<open>get_ray_batch\<close>) and when it has three components each of which \<open>view(-1, 3)\<close>
  accepts (raised by the destructuring into four variables of the 3-tuple that
  \<open>get_ray_batch\<close> returns). When \<open>view(-1, 3)\<close> rejects one of three components, for
  its number of elements or for its strides, the error is the \<open>RuntimeError\<close> of that
  call. The inner call of \<open>forward\<close> on a 3-tuple, were it reached, raises a tuple-arity
  error as well.
\<close>

theorem validation_step_never_completes:
  "validation_step m b idx =
     (if length b < 3 then Inl (ValueError ''not enough values to unpack'')
      else if 3 < length b then Inl (ValueError ''too many values to unpack'')
      else if \<forall>t \<in> set b. accepts_view3 t
           then Inl (ValueError ''not enough values to unpack'')
           else Inl RuntimeError) \<and>
   forward m [ray_origins, ray_directions, bounds] = Inl (ValueError ''too many values to unpack'')"
  by (simp add: validation_step_def get_ray_batch_cases unpack_def forward_three)

theorem validation_step_never_completes_witness:
  "validation_step demo_model [Torch True row3, Torch True row3, Torch True row3] 0
     = Inl (ValueError ''not enough values to unpack'') \<and>
   validation_step demo_model [Torch True row3, Torch True row3, Torch True row3, Torch True row4] 0
     = Inl (ValueError ''too many values to unpack'') \<and>
   validation_step demo_model [Torch True row3, transposed_2x3, Torch True row3] 0 = Inl RuntimeError"
  using validation_step_never_completes
          [of demo_model "[Torch True row3, Torch True row3, Torch True row3]" 0]
        validation_step_never_completes
          [of demo_model "[Torch True row3, Torch True row3, Torch True row3, Torch True row4]" 0]
        validation_step_never_completes
          [of demo_model "[Torch True row3, transposed_2x3, Torch True row3]" 0]
  by (simp add: row3_def transposed_2x3_def accepts_view3_def)


section \<open>The losses of training\_step\<close>

text \<open>
  C8. When \<open>get_ray_batch\<close> and \<open>forward\<close> return, \<open>training_step\<close> computes the loss of
  the coarse rendering against the targets always, and of the fine rendering when there is
  one, which is exactly when the active fine-sample count is positive and a fine model
  exists. The returned loss is the plain sum of the two, or the coarse loss alone; the
  PSNR is \<open>mse2psnr\<close> of the fine loss when there is one, of the coarse loss otherwise.
\<close>

theorem training_step_losses:
  assumes "get_ray_batch ray_batch = Inr [ro, rd, rt]"
    and "forward m [ro, rd] = Inr out"
    and "loss_fn m (rgb_coarse out) rt = Inr lc"
    and "\<forall>f. rgb_fine out = Some f \<longrightarrow> loss_fn m f rt = Inr lf"
  shows "\<exists>lg. training_step m ray_batch idx
                = Inr \<lparr>loss = (if rgb_fine out = None then lc else lc + lf), log = lg\<rparr> \<and>
              map_of lg ''train/loss'' = Some (if rgb_fine out = None then lc else lc + lf) \<and>
              map_of lg ''train/coarse_loss'' = Some lc \<and>
              map_of lg ''train/fine_loss'' = (if rgb_fine out = None then None else Some lf) \<and>
              map_of lg ''train/psnr'' = Some (mse2psnr m (if rgb_fine out = None then lc else lf)) \<and>
              (rgb_fine out \<noteq> None \<longleftrightarrow>
                 (if training m then num_fine_train m else num_fine_validation m) > 0 \<and> has_model_fine m)"
proof -
  have fine: "rgb_fine out \<noteq> None \<longleftrightarrow>
                 (if training m then num_fine_train m else num_fine_validation m) > 0 \<and> has_model_fine m"
    using assms(2)
    by (auto simp: forward_def unpack_def Let_def split: sum.splits prod.splits if_splits)
  show ?thesis
  proof (cases "rgb_fine out")
    case None
    with assms fine show ?thesis
      by (simp add: training_step_def unpack_def Let_def)
  next
    case (Some f)
    with assms fine show ?thesis
      by (simp add: training_step_def unpack_def Let_def)
  qed
qed

theorem training_step_losses_witness:
  "\<exists>lg. training_step demo_model [Torch True row3, Torch True row3, Torch True row3] 0
          = Inr \<lparr>loss = 6, log = lg\<rparr> \<and>
         map_of lg ''train/loss'' = Some 6 \<and>
         map_of lg ''train/coarse_loss'' = Some 3 \<and>
         map_of lg ''train/fine_loss'' = Some 3 \<and>
         map_of lg ''train/psnr'' = Some (- 30)"
proof -
  let ?out = "\<lparr>rgb_coarse = Arr [row3], disp_coarse = Arr [row3], acc_coarse = Arr [row3],
               rgb_fine = Some (Arr [row3]), disp_fine = Some (Arr [row3]),
               acc_fine = Some (Arr [row3])\<rparr>"
  have g: "get_ray_batch [Torch True row3, Torch True row3, Torch True row3]
             = Inr [Arr [row3], Arr [row3], Arr [row3]]"
    by (simp add: get_ray_batch_def unpack_def view3_def accepts_view3_def row3_def)
  have f: "forward demo_model [Arr [row3], Arr [row3]] = Inr ?out"
    by (simp add: forward_def unpack_def demo_model_def Let_def)
  have l: "loss_fn demo_model (rgb_coarse ?out) (Arr [row3]) = Inr 3"
    by (simp add: demo_model_def row3_def)
  have l2: "\<forall>f'. rgb_fine ?out = Some f' \<longrightarrow> loss_fn demo_model f' (Arr [row3]) = Inr 3"
    by (simp add: demo_model_def row3_def)
  have p: "mse2psnr demo_model 3 = - 30"
    by (simp add: demo_model_def)
  from training_step_losses [OF g f l l2, of 0] show ?thesis
    by (auto simp add: p)
qed


section \<open>Recolouring the mesh never reaches the renderer\<close>

text \<open>
  C1. The default recolouring path should render a short ray per vertex and take the
  composited colour. It hands \<open>forward\<close> a triple (origins, directions, bounds), which
  \<open>forward\<close> destructures into two variables: at the default resolution 128, for every
  model, limit, vertex list and normal list, the first batch already raises and no colour
  is produced.
\<close>

theorem recolor_raises:
  "recolor m limit 128 vertices normals = Inl (ValueError ''too many values to unpack'')"
proof -
  have up: "[0..<Suc n] = 0 # [1..<Suc n]" for n
    by (simp add: upt_conv_Cons)
  show ?thesis
    unfolding recolor_def Let_def up
    by (simp add: forward_three Let_def)
qed


section \<open>SpecularSimpleModel without view directions\<close>

lemma xyz_loop_returns:
  "skip_connect_every m \<noteq> 0 \<Longrightarrow> \<exists>r. xyz_loop m xyz i ls x = Inr r"
  by (induction ls arbitrary: i x) (simp_all add: Let_def)

text \<open>
  C9, as stated, at \<open>FlexibleNeRFModel\<close> with its default arguments (four layers, a skip
  connection every four layers, \<open>use_viewdirs = True\<close>) called without view directions:
  this sibling variant hands \<open>ray_directions\<close> to its direction encoding unguarded and
  raises as well, so \<open>SpecularSimpleModel\<close> is not the only variant that cannot be called
  without view directions.
\<close>

theorem flexible_forward_counterexample:
  "FlexibleNeRFModel_forward demo_flexible 1 None = Inl TypeError"
  by (simp add: FlexibleNeRFModel_forward_def demo_flexible_def positional_encoding_def Let_def)

text \<open>
  C9, amended. \<open>SpecularSimpleModel.forward\<close> raises \<open>UnboundLocalError\<close> for \<open>specular\<close>
  exactly when \<open>ray_directions\<close> is \<open>None\<close> or \<open>hidden_layers_view\<close> is negative, so this
  variant cannot be called without view directions. Of the sibling variants,
  \<open>SimpleModel\<close> (on the same layers), \<open>FlatModel\<close>, \<open>ResModel\<close> and \<open>FlexibleNeRFModel\<close>
  built with \<open>use_viewdirs = False\<close> return a value without view directions;
  \<open>FlexibleNeRFModel\<close> with \<open>use_viewdirs = True\<close>, its default, raises without them too.
\<close>

theorem specular_forward_unbound:
  "(SpecularSimpleModel_forward m pts dirs = Inl (UnboundLocalError ''specular'')
      \<longleftrightarrow> (dirs = None \<or> hidden_layers_view_amount m < 0)) \<and>
   (\<exists>r. SimpleModel_forward m pts None = Inr r) \<and>
   (\<exists>r. FlatModel_forward fm pts None = Inr r) \<and>
   (\<exists>r. ResModel_forward fm pts None = Inr r) \<and>
   (use_viewdirs fx \<longrightarrow> (\<exists>e. FlexibleNeRFModel_forward fx pts None = Inl e)) \<and>
   (\<not> use_viewdirs fx \<and> skip_connect_every fx \<noteq> 0 \<longrightarrow>
      (\<exists>r. FlexibleNeRFModel_forward fx pts None = Inr r))"
proof -
  have spec: "SpecularSimpleModel_forward m pts dirs = Inl (UnboundLocalError ''specular'')
                \<longleftrightarrow> (dirs = None \<or> hidden_layers_view_amount m < 0)"
    by (auto simp: SpecularSimpleModel_forward_def Let_def)
  have sib: "(\<exists>r. SimpleModel_forward m pts None = Inr r) \<and>
             (\<exists>r. FlatModel_forward fm pts None = Inr r) \<and>
             (\<exists>r. ResModel_forward fm pts None = Inr r)"
    by (simp add: SimpleModel_forward_def FlatModel_forward_def ResModel_forward_def Let_def)
  have fails: "\<exists>e. FlexibleNeRFModel_forward fx pts None = Inl e" if "use_viewdirs fx"
    using that
    by (simp add: FlexibleNeRFModel_forward_def positional_encoding_def Let_def split: sum.splits)
  have returns: "\<exists>r. FlexibleNeRFModel_forward fx pts None = Inr r"
    if "\<not> use_viewdirs fx \<and> skip_connect_every fx \<noteq> 0"
  proof -
    from that xyz_loop_returns [of fx "nerf_encode_xyz fx pts" 0 "layers_xyz fx"
                                   "layer1 fx (nerf_encode_xyz fx pts)"]
    obtain r where "xyz_loop fx (nerf_encode_xyz fx pts) 0 (layers_xyz fx)
                      (layer1 fx (nerf_encode_xyz fx pts)) = Inr r"
      by blast
    with that show ?thesis by (simp add: FlexibleNeRFModel_forward_def Let_def)
  qed
  from spec sib fails returns show ?thesis by blast
qed

theorem specular_forward_unbound_witness:
  "SpecularSimpleModel_forward (demo_specular 2) 1 None = Inl (UnboundLocalError ''specular'') \<and>
   SpecularSimpleModel_forward (demo_specular (- 1)) 1 (Some 1) = Inl (UnboundLocalError ''specular'') \<and>
   SpecularSimpleModel_forward (demo_specular 2) 1 (Some 1) = Inr (59, 9) \<and>
   SimpleModel_forward (demo_specular 2) 1 None = Inr 11 \<and>
   (\<exists>e. FlexibleNeRFModel_forward demo_flexible 1 None = Inl e) \<and>
   (\<exists>r. FlexibleNeRFModel_forward (demo_flexible\<lparr>use_viewdirs := False\<rparr>) 1 None = Inr r)"
  using specular_forward_unbound [of "demo_specular 2" 1 None demo_embed demo_flexible]
        specular_forward_unbound [of "demo_specular (- 1)" 1 "Some 1" demo_embed
                                     "demo_flexible\<lparr>use_viewdirs := False\<rparr>"]
  by (simp add: demo_specular_def demo_flexible_def SpecularSimpleModel_forward_def
        SimpleModel_forward_def Let_def)


section \<open>Round trip of flatten\_dict and nest\_dict\<close>

subsection \<open>Splitting a flattened key\<close>

lemma split1_none: "c \<notin> set k \<Longrightarrow> split1 [c] k = (k, None)"
  by (induction k) auto

lemma split1_some: "c \<notin> set k \<Longrightarrow> split1 [c] (k @ c # r) = (k, Some r)"
  by (induction k) auto

lemma joinp_Cons: "p \<noteq> [] \<Longrightarrow> joinp c (k # p) = k @ c # joinp c p"
  by (cases p) auto

lemma leaf_in_map_of:
  "leaf_in kvs k p = (case map_of kvs k of None \<Rightarrow> None | Some ch \<Rightarrow> leaf_at ch p)"
  by (induction kvs) auto

lemma leaf_at_Node_Nil [simp]: "leaf_at (Node []) q = None"
  by (cases q) auto

lemma nest_rec_last:
  assumes "c \<notin> set k"
  shows "nest_dict_rec k v (Node kvs) [c] = Inr (Node (AList.update k v kvs))"
  by (simp add: nest_dict_rec.simps [of k v "Node kvs" "[c]"] split1_none [OF assms])

lemma nest_rec_step:
  assumes "c \<notin> set k"
  shows "nest_dict_rec (k @ c # r) v (Node kvs) [c] =
           (case nest_dict_rec r v (case map_of kvs k of None \<Rightarrow> Node [] | Some child \<Rightarrow> child) [c] of
              Inl e \<Rightarrow> Inl e
            | Inr sub \<Rightarrow> Inr (Node (AList.update k sub kvs)))"
  by (simp add: nest_dict_rec.simps [of "k @ c # r" v "Node kvs" "[c]"] split1_some [OF assms]
        split: sum.splits)

lemma leaf_in_update:
  "leaf_in (AList.update k sub kvs) k' q =
     (if k' = k then leaf_at sub q else leaf_in kvs k' q)"
  by (simp add: leaf_in_map_of update_conv')

lemma nest_rec_path:
  assumes "p \<noteq> []" and "\<forall>k \<in> set p. c \<notin> set k"
    and "\<forall>q. leaf_at out q \<noteq> None \<longrightarrow> \<not> prefix q p \<and> \<not> prefix p q"
  shows "\<exists>t. nest_dict_rec (joinp c p) (Leaf x) out [c] = Inr t \<and>
             (\<forall>q. leaf_at t q = (if q = p then Some x else leaf_at out q))"
  using assms
proof (induction p arbitrary: out)
  case Nil
  then show ?case by simp
next
  case (Cons k p')
  from Cons.prems(3) obtain kvs where out: "out = Node kvs"
    by (cases out) (auto dest: spec [of _ "[]"])
  from Cons.prems(2) have ck: "c \<notin> set k" by simp
  show ?case
  proof (cases "p' = []")
    case True
    have "\<forall>q. leaf_at (Node (AList.update k (Leaf x) kvs)) q
             = (if q = [k] then Some x else leaf_at (Node kvs) q)"
    proof
      fix q
      show "leaf_at (Node (AList.update k (Leaf x) kvs)) q
             = (if q = [k] then Some x else leaf_at (Node kvs) q)"
      proof (cases "\<exists>q'. q = k # q' \<and> q' \<noteq> []")
        case True
        then obtain q' where q: "q = k # q'" "q' \<noteq> []" by blast
        have "leaf_at out q = None"
        proof (rule ccontr)
          assume "leaf_at out q \<noteq> None"
          with Cons.prems(3) have "\<not> prefix (k # p') q" by blast
          with q \<open>p' = []\<close> show False by simp
        qed
        with q out show ?thesis by (simp add: leaf_in_update)
      next
        case False
        then show ?thesis by (cases q) (auto simp: leaf_in_update)
      qed
    qed
    with True out ck show ?thesis by (simp add: nest_rec_last)
  next
    case False
    let ?child = "case map_of kvs k of None \<Rightarrow> Node [] | Some child \<Rightarrow> child"
    have child: "leaf_at ?child q = leaf_at out (k # q)" for q
      by (simp add: out leaf_in_map_of split: option.splits)
    have "\<forall>q. leaf_at ?child q \<noteq> None \<longrightarrow> \<not> prefix q p' \<and> \<not> prefix p' q"
      using Cons.prems(3) by (auto simp: child)
    with Cons.IH [OF False, of ?child] Cons.prems(2)
    obtain sub where sub: "nest_dict_rec (joinp c p') (Leaf x) ?child [c] = Inr sub"
      and subl: "\<forall>q. leaf_at sub q = (if q = p' then Some x else leaf_at ?child q)"
      by auto
    have "\<forall>q. leaf_at (Node (AList.update k sub kvs)) q
             = (if q = k # p' then Some x else leaf_at out q)"
    proof
      fix q
      show "leaf_at (Node (AList.update k sub kvs)) q
             = (if q = k # p' then Some x else leaf_at out q)"
        by (cases q) (auto simp: leaf_in_update subl child out)
    qed
    with sub show ?thesis
      by (simp add: joinp_Cons [OF False] out nest_rec_step [OF ck])
  qed
qed

lemma nest_loop_paths:
  assumes "\<forall>p \<in> fst ` set ps. p \<noteq> [] \<and> (\<forall>k \<in> set p. c \<notin> set k)"
    and "pfree (map fst ps)"
    and "\<forall>q. leaf_at out q \<noteq> None \<longrightarrow> (\<forall>p \<in> fst ` set ps. \<not> prefix q p \<and> \<not> prefix p q)"
  shows "\<exists>t. nest_loop (map (\<lambda>(p, x). (joinp c p, Leaf x)) ps) out [c] = Inr t \<and>
             (\<forall>q. leaf_at t q = (case map_of ps q of Some x \<Rightarrow> Some x | None \<Rightarrow> leaf_at out q))"
  using assms
proof (induction ps arbitrary: out)
  case Nil
  then show ?case by simp
next
  case (Cons px rest)
  obtain p x where px: "px = (p, x)" by (cases px)
  from Cons.prems(1) px have p: "p \<noteq> []" "\<forall>k \<in> set p. c \<notin> set k" by auto
  from Cons.prems(3) px have "\<forall>q. leaf_at out q \<noteq> None \<longrightarrow> \<not> prefix q p \<and> \<not> prefix p q"
    by auto
  from nest_rec_path [OF p this, of x]
  obtain t1 where t1: "nest_dict_rec (joinp c p) (Leaf x) out [c] = Inr t1"
    and t1l: "\<forall>q. leaf_at t1 q = (if q = p then Some x else leaf_at out q)"
    by auto
  from Cons.prems(2) px have free: "\<forall>q \<in> fst ` set rest. \<not> prefix p q \<and> \<not> prefix q p"
    and pf: "pfree (map fst rest)" by auto
  have inv: "\<forall>q. leaf_at t1 q \<noteq> None \<longrightarrow> (\<forall>p' \<in> fst ` set rest. \<not> prefix q p' \<and> \<not> prefix p' q)"
    using t1l free Cons.prems(3) by (auto split: if_splits)
  from Cons.prems(1) have "\<forall>p \<in> fst ` set rest. p \<noteq> [] \<and> (\<forall>k \<in> set p. c \<notin> set k)"
    by auto
  from Cons.IH [OF this pf inv]
  obtain t where t: "nest_loop (map (\<lambda>(p, x). (joinp c p, Leaf x)) rest) t1 [c] = Inr t"
    and tl: "\<forall>q. leaf_at t q = (case map_of rest q of Some x \<Rightarrow> Some x | None \<Rightarrow> leaf_at t1 q)"
    by auto
  from free have "p \<notin> fst ` set rest" by auto
  then have "map_of rest p = None" by (simp add: map_of_eq_None_iff)
  with tl t1l have "\<forall>q. leaf_at t q = (case map_of (px # rest) q of Some x \<Rightarrow> Some x | None \<Rightarrow> leaf_at out q)"
    by (auto simp: px split: option.splits)
  with t t1 show ?case by (simp add: px)
qed

subsection \<open>What flatten\_dict produces\<close>

lemma update_fresh: "k \<notin> fst ` set al \<Longrightarrow> AList.update k v al = al @ [(k, v)]"
  by (induction al) auto

lemma dict_of_acc:
  "distinct (map fst (acc @ xs)) \<Longrightarrow> foldl (\<lambda>d (k, v). AList.update k v d) acc xs = acc @ xs"
proof (induction xs arbitrary: acc)
  case Nil
  then show ?case by simp
next
  case (Cons kv xs)
  obtain k v where kv: "kv = (k, v)" by (cases kv)
  from Cons.prems have "k \<notin> fst ` set acc" by (auto simp: kv)
  then have u: "AList.update k v acc = acc @ [(k, v)]" by (rule update_fresh)
  from Cons.prems have "distinct (map fst ((acc @ [(k, v)]) @ xs))" by (simp add: kv)
  from Cons.IH [OF this] show ?case by (simp add: kv u)
qed

lemma dict_of_distinct: "distinct (map fst xs) \<Longrightarrow> dict_of xs = xs"
  using dict_of_acc [of "[]" xs] by (simp add: dict_of_def)

lemma joinp_inj:
  assumes "p \<noteq> []" "q \<noteq> []" "\<forall>k \<in> set p. c \<notin> set k" "\<forall>k \<in> set q. c \<notin> set k"
    and "joinp c p = joinp c q"
  shows "p = q"
  using assms
proof (induction p arbitrary: q)
  case Nil
  then show ?case by simp
next
  case (Cons k p')
  from Cons.prems(2) obtain k2 q' where q: "q = k2 # q'" by (cases q) auto
  from Cons.prems(3) have ck: "c \<notin> set k" by simp
  from Cons.prems(4) q have ck2: "c \<notin> set k2" by simp
  show ?case
  proof (cases "p' = []")
    case True
    show ?thesis
    proof (cases "q' = []")
      case True
      with \<open>p' = []\<close> Cons.prems(5) q show ?thesis by simp
    next
      case False
      with \<open>p' = []\<close> Cons.prems(5) q have "k = k2 @ c # joinp c q'"
        by (simp add: joinp_Cons)
      with ck show ?thesis by simp
    qed
  next
    case False
    show ?thesis
    proof (cases "q' = []")
      case True
      with False Cons.prems(5) q have "k2 = k @ c # joinp c p'"
        by (simp add: joinp_Cons)
      with ck2 show ?thesis by simp
    next
      case q'ne: False
      from False q'ne Cons.prems(5) q have e: "k @ c # joinp c p' = k2 @ c # joinp c q'"
        by (simp add: joinp_Cons)
      have s1: "split1 [c] (k @ c # joinp c p') = (k, Some (joinp c p'))"
        by (rule split1_some [OF ck])
      have s2: "split1 [c] (k2 @ c # joinp c q') = (k2, Some (joinp c q'))"
        by (rule split1_some [OF ck2])
      have "split1 [c] (k @ c # joinp c p') = split1 [c] (k2 @ c # joinp c q')"
        by (simp only: e)
      then have "(k, Some (joinp c p')) = (k2, Some (joinp c q'))"
        by (simp only: s1 s2)
      then have kk: "k = k2" and jj: "joinp c p' = joinp c q'"
        by simp_all
      from Cons.prems(3,4) q have "\<forall>k \<in> set p'. c \<notin> set k" "\<forall>k \<in> set q'. c \<notin> set k"
        by simp_all
      from Cons.IH [OF False q'ne this jj] kk q show ?thesis by simp
    qed
  qed
qed

lemma pfree_distinct: "pfree ps \<Longrightarrow> distinct ps"
  by (induction ps) auto

lemma pfree_append:
  "pfree (xs @ ys) \<longleftrightarrow>
     pfree xs \<and> pfree ys \<and> (\<forall>p \<in> set xs. \<forall>q \<in> set ys. \<not> prefix p q \<and> \<not> prefix q p)"
  by (induction xs) auto

lemma pfree_map_Cons: "pfree (map ((#) k) ps) = pfree ps"
  by (induction ps) auto

lemma paths_good:
  assumes "good_cfg c (Node d)" and "(p, x) \<in> set (paths_items d)"
  shows "p \<noteq> [] \<and> hd p \<in> fst ` set d \<and> (\<forall>k \<in> set p. k \<noteq> [] \<and> c \<notin> set k)"
  using assms
proof (induction d arbitrary: p rule: paths_items.induct)
  case 1
  then show ?case by simp
next
  case (2 k d rest)
  from "2.prems"(1) have gd: "good_cfg c (Node d)" and gr: "good_cfg c (Node rest)"
    and k: "k \<noteq> []" "c \<notin> set k" by auto
  from "2.prems"(2) consider p' where "p = k # p'" "(p', x) \<in> set (paths_items d)"
    | "(p, x) \<in> set (paths_items rest)" by auto
  then show ?case
  proof cases
    case 1
    with "2.IH"(1) [OF gd 1(2)] k show ?thesis by auto
  next
    case 2
    with "2.IH"(2) [OF gr 2] show ?thesis by auto
  qed
next
  case (3 k y rest)
  from "3.prems"(1) have gr: "good_cfg c (Node rest)" and k: "k \<noteq> []" "c \<notin> set k" by auto
  from "3.prems"(2) consider "p = [k]" | "(p, x) \<in> set (paths_items rest)" by auto
  then show ?case
  proof cases
    case 1
    with k show ?thesis by simp
  next
    case 2
    with "3.IH" [OF gr 2] show ?thesis by auto
  qed
qed

lemma paths_other_key:
  assumes "good_cfg c (Node d)" and "k \<notin> fst ` set d" and "p \<in> fst ` set (paths_items d)"
  shows "\<not> prefix (k # q) p \<and> \<not> prefix p (k # q)"
proof -
  from assms(3) obtain x where "(p, x) \<in> set (paths_items d)" by auto
  from paths_good [OF assms(1) this] assms(2) obtain k' p' where "p = k' # p'" "k' \<noteq> k"
    by (cases p) auto
  then show ?thesis by simp
qed

lemma paths_pfree: "good_cfg c (Node d) \<Longrightarrow> pfree (map fst (paths_items d))"
proof (induction d rule: paths_items.induct)
  case 1
  then show ?case by simp
next
  case (2 k d rest)
  from "2.prems" have gd: "good_cfg c (Node d)" and gr: "good_cfg c (Node rest)"
    and kr: "k \<notin> fst ` set rest" by auto
  have m: "map fst (map (\<lambda>(p, x). (k # p, x)) (paths_items d)) = map ((#) k) (map fst (paths_items d))"
    by (simp add: case_prod_beta)
  have "\<forall>p \<in> set (map ((#) k) (map fst (paths_items d))). \<forall>q \<in> set (map fst (paths_items rest)).
          \<not> prefix p q \<and> \<not> prefix q p"
    using paths_other_key [OF gr kr] by auto
  with "2.IH"(1) [OF gd] "2.IH"(2) [OF gr] show ?case
    by (simp add: m pfree_append pfree_map_Cons del: map_map)
next
  case (3 k y rest)
  from "3.prems" have gr: "good_cfg c (Node rest)" and kr: "k \<notin> fst ` set rest" by auto
  from paths_other_key [OF gr kr, of _ "[]"] "3.IH" [OF gr] show ?case by auto
qed

lemma map_of_paths_other:
  assumes "good_cfg c (Node d)" and "k \<notin> fst ` set d"
  shows "map_of (paths_items d) (k # q) = None"
proof -
  have "k # q \<notin> fst ` set (paths_items d)"
    using paths_other_key [OF assms, of "k # q" q] by auto
  then show ?thesis by (simp add: map_of_eq_None_iff)
qed

lemma leaf_in_other: "k \<notin> fst ` set d \<Longrightarrow> leaf_in d k q = None"
  by (induction d) auto

lemma map_of_map_Cons:
  "map_of (map (\<lambda>(p, x). (k # p, x)) ps) q = (case q of [] \<Rightarrow> None | k' # q' \<Rightarrow> if k' = k then map_of ps q' else None)"
  by (induction ps) (auto split: list.splits)

lemma paths_map_of:
  "good_cfg c (Node d) \<Longrightarrow> map_of (paths_items d) q = leaf_at (Node d) q"
proof (induction d arbitrary: q rule: paths_items.induct)
  case 1
  then show ?case by simp
next
  case (2 k d rest)
  from "2.prems" have gd: "good_cfg c (Node d)" and gr: "good_cfg c (Node rest)"
    and kr: "k \<notin> fst ` set rest" by auto
  show ?case
  proof (cases q)
    case Nil
    with "2.IH"(2) [OF gr, of "[]"] show ?thesis
      by (simp add: map_of_append map_of_map_Cons map_add_def)
  next
    case (Cons k' q')
    show ?thesis
    proof (cases "k' = k")
      case True
      with Cons "2.IH"(1) [OF gd, of q'] map_of_paths_other [OF gr kr, of q'] show ?thesis
        by (simp add: map_of_append map_of_map_Cons map_add_def split: option.splits)
    next
      case False
      with Cons "2.IH"(2) [OF gr, of q] show ?thesis
        by (simp add: map_of_append map_of_map_Cons map_add_def split: option.splits)
    qed
  qed
next
  case (3 k y rest)
  from "3.prems" have gr: "good_cfg c (Node rest)" and kr: "k \<notin> fst ` set rest" by auto
  show ?case
  proof (cases q)
    case Nil
    with "3.IH" [OF gr, of "[]"] show ?thesis by simp
  next
    case (Cons k' q')
    show ?thesis
    proof (cases "k' = k")
      case True
      with Cons map_of_paths_other [OF gr kr, of q'] show ?thesis by simp
    next
      case False
      with Cons "3.IH" [OF gr, of q] show ?thesis by simp
    qed
  qed
qed

lemma keyp_inj:
  assumes "p \<noteq> []" "q \<noteq> []" "\<forall>k \<in> set p. c \<notin> set k" "\<forall>k \<in> set q. c \<notin> set k"
    and "keyp parent c p = keyp parent c q"
  shows "p = q"
proof -
  from assms(5) have "joinp c p = joinp c q"
    by (simp add: keyp_def split: if_splits)
  from joinp_inj [OF assms(1-4) this] show ?thesis .
qed

lemma flat_keys_distinct:
  assumes "good_cfg c (Node d)"
  shows "distinct (map fst (map (\<lambda>(p, x). (keyp parent c p, Leaf x)) (paths_items d)))"
proof -
  have m: "map fst (map (\<lambda>(p, x). (keyp parent c p, Leaf x)) (paths_items d))
             = map (keyp parent c) (map fst (paths_items d))"
    by (simp add: case_prod_beta)
  have d: "distinct (map fst (paths_items d))"
    by (rule pfree_distinct [OF paths_pfree [OF assms]])
  have "inj_on (keyp parent c) (set (map fst (paths_items d)))"
  proof (rule inj_onI)
    fix p q
    assume p: "p \<in> set (map fst (paths_items d))" and q: "q \<in> set (map fst (paths_items d))"
      and e: "keyp parent c p = keyp parent c q"
    from p obtain x where "(p, x) \<in> set (paths_items d)" by auto
    from paths_good [OF assms this] have p': "p \<noteq> []" "\<forall>k \<in> set p. c \<notin> set k" by auto
    from q obtain y where "(q, y) \<in> set (paths_items d)" by auto
    from paths_good [OF assms this] have q': "q \<noteq> []" "\<forall>k \<in> set q. c \<notin> set k" by auto
    from keyp_inj [OF p'(1) q'(1) p'(2) q'(2) e] show "p = q" .
  qed
  with d show ?thesis unfolding m by (simp only: distinct_map)
qed

lemma flatten_items_paths:
  "good_cfg c (Node d) \<Longrightarrow>
     flatten_items d parent [c] = map (\<lambda>(p, x). (keyp parent c p, Leaf x)) (paths_items d)"
proof (induction d arbitrary: parent rule: paths_items.induct)
  case 1
  then show ?case by simp
next
  case (2 k d rest)
  from "2.prems" have gd: "good_cfg c (Node d)" and gr: "good_cfg c (Node rest)"
    and k: "k \<noteq> []" by auto
  let ?nk = "new_key parent [c] k"
  have nk: "?nk \<noteq> []" using k by (simp add: new_key_def)
  have "dict_of (flatten_items d ?nk [c]) = map (\<lambda>(p, x). (keyp ?nk c p, Leaf x)) (paths_items d)"
    using "2.IH"(1) [OF gd, of ?nk] dict_of_distinct [OF flat_keys_distinct [OF gd, of ?nk]]
    by simp
  also have "\<dots> = map (\<lambda>(p, x). (keyp parent c p, Leaf x)) (map (\<lambda>(p, x). (k # p, x)) (paths_items d))"
  proof -
    have "keyp ?nk c p = keyp parent c (k # p)" if "(p, x) \<in> set (paths_items d)" for p x
    proof -
      from paths_good [OF gd that] have "p \<noteq> []" by simp
      then show ?thesis using nk by (simp add: keyp_def joinp_Cons new_key_def)
    qed
    then show ?thesis by (auto simp: case_prod_beta)
  qed
  finally show ?case using "2.IH"(2) [OF gr, of parent] by simp
next
  case (3 k y rest)
  from "3.prems" have gr: "good_cfg c (Node rest)" by auto
  from "3.IH" [OF gr, of parent] show ?case by (simp add: keyp_def new_key_def)
qed

lemma nest_flatten_char:
  assumes "good_cfg c (Node d)"
  shows "\<exists>t. nest_dict (flatten_dict d [] [c]) [c] = Inr t \<and> (\<forall>q. leaf_at t q = leaf_at (Node d) q)"
proof -
  let ?ps = "paths_items d"
  have k: "keyp [] c = joinp c" by (rule ext) (simp add: keyp_def)
  have fl: "flatten_dict d [] [c] = map (\<lambda>(p, x). (joinp c p, Leaf x)) ?ps"
    using flatten_items_paths [OF assms, of "[]"] dict_of_distinct [OF flat_keys_distinct [OF assms, of "[]"]]
    by (simp add: flatten_dict_def k)
  have a1: "\<forall>p \<in> fst ` set ?ps. p \<noteq> [] \<and> (\<forall>k \<in> set p. c \<notin> set k)"
    using paths_good [OF assms] by fastforce
  have a3: "\<forall>q. leaf_at (Node []) q \<noteq> None \<longrightarrow> (\<forall>p \<in> fst ` set ?ps. \<not> prefix q p \<and> \<not> prefix p q)"
    by simp
  from nest_loop_paths [OF a1 paths_pfree [OF assms] a3]
  obtain t where t: "nest_loop (map (\<lambda>(p, x). (joinp c p, Leaf x)) ?ps) (Node []) [c] = Inr t"
    and tl: "\<forall>q. leaf_at t q = (case map_of ?ps q of Some x \<Rightarrow> Some x | None \<Rightarrow> leaf_at (Node []) q)"
    by blast
  have "\<forall>q. leaf_at t q = leaf_at (Node d) q"
    using tl paths_map_of [OF assms] by (simp split: option.splits)
  with t fl show ?thesis by (simp add: nest_dict_def)
qed

text \<open>
  C2, as stated, with the default separator \<open>"_"\<close>. In
  \<open>{"a": {"b_c": 1, "b": {"c": 2}}}\<close> two leaves flatten to the same key \<open>"a_b_c"\<close>: the
  second overwrites the first, and the round trip returns \<open>{"a": {"b": {"c": 2}}}\<close>, where
  the leaf 1 is gone. In \<open>{"": {"a": {"b": 1}}}\<close> the empty key is dropped from the
  flattened key, and the round trip returns \<open>{"a": {"b": 1}}\<close>.
\<close>

theorem nest_flatten_counterexample:
  "nest_dict (flatten_dict cfg_sep_in_key [] default_sep) default_sep
     = Inr (Node [(''a'', Node [(''b'', Node [(''c'', Leaf 2)])])]) \<and>
   leaf_at (Node cfg_sep_in_key) [''a'', ''b_c''] = Some 1 \<and>
   leaf_at (Node [(''a'', Node [(''b'', Node [(''c'', Leaf (2::int))])])]) [''a'', ''b_c''] = None \<and>
   leaf_values (Node cfg_sep_in_key) = [1, 2] \<and>
   leaf_values (Node [(''a'', Node [(''b'', Node [(''c'', Leaf (2::int))])])]) = [2] \<and>
   nesting (Node cfg_sep_in_key) = 3 \<and>
   nest_dict (flatten_dict cfg_empty_key [] default_sep) default_sep
     = Inr (Node [(''a'', Node [(''b'', Leaf 1)])]) \<and>
   leaf_at (Node cfg_empty_key) [[], ''a'', ''b''] = Some 1 \<and>
   leaf_at (Node [(''a'', Node [(''b'', Leaf (1::int))])]) [[], ''a'', ''b''] = None"
  by (simp add: cfg_sep_in_key_def cfg_empty_key_def default_sep_def flatten_dict_def dict_of_def
        new_key_def nest_dict_def nest_dict_rec.simps)

text \<open>
  C2, amended. For every nested configuration mapping \<open>cfg\<close> (of any nesting depth) whose
  keys, at every level, are non-empty and do not contain the separator character \<open>"_"\<close>,
  \<open>nest_dict(flatten_dict(cfg))\<close>, both with their default separator, returns a
  configuration tree that has at every path of keys the same leaf value as \<open>cfg\<close>.
\<close>

theorem nest_flatten_leaves:
  assumes "good_cfg CHR ''_'' (Node cfg)"
  shows "\<exists>t. nest_dict (flatten_dict cfg [] default_sep) default_sep = Inr t \<and>
             (\<forall>p. leaf_at t p = leaf_at (Node cfg) p)"
  using nest_flatten_char [OF assms] by (simp add: default_sep_def)

theorem nest_flatten_leaves_witness:
  "good_cfg CHR ''_'' (Node cfg_plain) \<and> nesting (Node cfg_plain) = 3 \<and>
   (\<exists>t. nest_dict (flatten_dict cfg_plain [] default_sep) default_sep = Inr t \<and>
        leaf_at t [''nerf'', ''train'', ''chunksize''] = Some 8 \<and>
        leaf_at t [''nerf'', ''train'', ''perturb''] = Some 1 \<and>
        leaf_at t [''seed''] = Some 42)"
proof -
  have g: "good_cfg CHR ''_'' (Node cfg_plain)"
    by (simp add: cfg_plain_def)
  have n: "nesting (Node cfg_plain) = 3"
    by (simp add: cfg_plain_def)
  have l: "leaf_at (Node cfg_plain) [''nerf'', ''train'', ''chunksize''] = Some 8"
       "leaf_at (Node cfg_plain) [''nerf'', ''train'', ''perturb''] = Some 1"
       "leaf_at (Node cfg_plain) [''seed''] = Some 42"
    by (simp_all add: cfg_plain_def)
  from nest_flatten_leaves [OF g] l g n show ?thesis by auto
qed

end
